theory Spec2Isabelle
  imports Main "HOL-Library.Word"
begin

unbundle bit_operations_syntax

section \<open>Values of the Go program\<close>

text \<open>
  The Solax X1 RS485 client is embedded function by function. A Go \<open>byte\<close> is an
  8-bit word, \<open>uint16\<close> and \<open>uint32\<close> are 16- and 32-bit words (so \<open>+\<close> and \<open>*\<close>
  wrap as in Go), a \<open>[]byte\<close> is a list of bytes, and Go's \<open>int\<close> (lengths, indices)
  is \<open>int\<close>: no length that occurs here comes near 2^63.
\<close>

type_synonym byte = "8 word"
type_synonym uint16 = "16 word"
type_synonym uint32 = "32 word"

subsection \<open>Errors\<close>

text \<open>
  The package-level sentinel errors of \<open>protocol.go\<close> and \<open>client.go\<close>
  (\<open>errors.New\<close>).
\<close>

datatype sentinel =
    ErrMaxDataSizeExceeded
  | ErrInvalidBody
  | ErrUnexpectedControlCode
  | ErrUnexpectedFunctionCode
  | ErrIncompleteRead
  | ErrIncompleteWrite
  | ErrNoInverter

text \<open>
  The text that \<open>fmt.Errorf("%w: ...", sentinel, args)\<close> puts behind the wrapped
  sentinel, one constructor per format string of the source, with the arguments
  that are formatted into it.
\<close>

datatype detail =
    MinimumPacketSize int
      \<comment> \<open>"minimum packet size is 11 bytes, got %d bytes"\<close>
  | SpecifiesLength int int
      \<comment> \<open>"packet specifies length of %d, but got %d instead"\<close>
  | ChecksumMismatch uint16 uint16
      \<comment> \<open>"checksum mismatch: Packet specifies checksum of %X, got %X instead"\<close>
  | HeaderMismatch uint16
      \<comment> \<open>"header mismatch: Expected 0xAA55, got %X"\<close>
  | ExpectedGot byte byte
      \<comment> \<open>"Expected 0x.., got %X": the code the text names, and the code received\<close>
  | ExpectedDataLength1 int
      \<comment> \<open>"Expected data length 1, got %d"\<close>
  | ExpectedACKorNOACK byte
      \<comment> \<open>"expected ACK (%X) or NOACK (%X), got %X"\<close>
  | ExpectedLength67 int
      \<comment> \<open>"expected length of 67, got %d"\<close>

text \<open>
  An \<open>error\<close> value. \<open>Panic\<close> is not a Go error value: it stands for a run-time
  panic (index or slice bounds out of range). Nothing in the package recovers, so a
  panic unwinds through every caller exactly as the \<open>if err != nil { return err }\<close>
  chain does, and it is carried on the same side of the sum.
\<close>

datatype error =
    Sentinel sentinel
  | Wrapped sentinel detail
  | GotNOACK
      \<comment> \<open>\<open>fmt.Errorf("got NOACK")\<close>, wraps nothing\<close>
  | InverterNil
      \<comment> \<open>\<open>fmt.Errorf("Inverter must not be nil")\<close>, wraps nothing\<close>
  | ConnError string
      \<comment> \<open>an error returned by the serial connection, passed on unchanged\<close>
  | Panic

text \<open>\<open>errors.Is(err, target)\<close> for a sentinel target.\<close>

fun errors_Is :: "error \<Rightarrow> sentinel \<Rightarrow> bool" where
  "errors_Is (Sentinel s) t = (s = t)"
| "errors_Is (Wrapped s d) t = (s = t)"
| "errors_Is e t = False"

text \<open>Sequencing of fallible steps: the first error (or panic) is the result.\<close>

definition bind :: "error + 'a \<Rightarrow> ('a \<Rightarrow> error + 'b) \<Rightarrow> error + 'b" where
  "bind m f = (case m of Inl e \<Rightarrow> Inl e | Inr x \<Rightarrow> f x)"

subsection \<open>Indexing, slicing and array conversion\<close>

text \<open>
  Go's \<open>xs[i]\<close> panics unless \<open>0 \<le> i < len(xs)\<close>; \<open>xs[lo:hi]\<close> panics unless
  \<open>0 \<le> lo \<le> hi \<le> cap(xs)\<close>. A list has no spare capacity, so the model checks
  \<open>hi\<close> against the length, which panics at least as often as the program does.
  The conversion \<open>*(*[2]byte)(s)\<close> panics when \<open>len(s) < 2\<close> and otherwise reads
  the first two bytes; likewise for \<open>[4]byte\<close>.
\<close>

definition index :: "'a list \<Rightarrow> int \<Rightarrow> error + 'a" where
  "index xs i = (if 0 \<le> i \<and> i < int (length xs) then Inr (xs ! nat i) else Inl Panic)"

definition slicing :: "'a list \<Rightarrow> int \<Rightarrow> int \<Rightarrow> error + 'a list" where
  "slicing xs lo hi =
     (if 0 \<le> lo \<and> lo \<le> hi \<and> hi \<le> int (length xs)
      then Inr (take (nat (hi - lo)) (drop (nat lo) xs))
      else Inl Panic)"

fun array2 :: "'a list \<Rightarrow> error + ('a \<times> 'a)" where
  "array2 (a # b # xs) = Inr (a, b)"
| "array2 xs = Inl Panic"

fun array4 :: "'a list \<Rightarrow> error + ('a \<times> 'a \<times> 'a \<times> 'a)" where
  "array4 (a # b # c # d # xs) = Inr (a, b, c, d)"
| "array4 xs = Inl Panic"

section \<open>Byte utilities\<close>

definition bytesFromUint16 :: "uint16 \<Rightarrow> byte list" where
  "bytesFromUint16 i = [ucast (i div 256), ucast (i mod 256)]"

definition uint16FromBytes :: "byte \<times> byte \<Rightarrow> uint16" where
  "uint16FromBytes i = (case i of (i0, i1) \<Rightarrow> ucast i0 * 256 + ucast i1)"

definition uint32FromBytes :: "byte \<times> byte \<times> byte \<times> byte \<Rightarrow> uint32" where
  "uint32FromBytes i =
     (case i of (i0, i1, i2, i3) \<Rightarrow>
        ucast i0 * 256 * 256 * 256 + ucast i1 * 256 * 256 + ucast i2 * 256 + ucast i3)"

text \<open>
  The expressions \<open>uint16FromBytes(*(*[2]byte)(data[lo:hi]))\<close> and
  \<open>uint32FromBytes(*(*[4]byte)(data[lo:hi]))\<close> of the parsers: slice, convert,
  decode, each step able to panic.
\<close>

definition uint16At :: "byte list \<Rightarrow> int \<Rightarrow> int \<Rightarrow> error + uint16" where
  "uint16At data lo hi =
     bind (slicing data lo hi) (\<lambda>s. bind (array2 s) (\<lambda>a. Inr (uint16FromBytes a)))"

definition uint32At :: "byte list \<Rightarrow> int \<Rightarrow> int \<Rightarrow> error + uint32" where
  "uint32At data lo hi =
     bind (slicing data lo hi) (\<lambda>s. bind (array4 s) (\<lambda>a. Inr (uint32FromBytes a)))"

section \<open>Packets\<close>

record Packet =
  Header :: uint16
  Source :: uint16
  Destination :: uint16
  ControlCode :: byte
  FunctionCode :: byte
  Data :: "byte list"

definition ControlCodeRegister :: byte where "ControlCodeRegister = 0x10"
definition ControlCodeRead :: byte where "ControlCodeRead = 0x11"
definition ControlCodeWrite :: byte where "ControlCodeWrite = 0x12"
definition ControlCodeExecute :: byte where "ControlCodeExecute = 0x13"
definition StatusACK :: byte where "StatusACK = 0x06"
definition StatusNOACK :: byte where "StatusNOACK = 0x15"

text \<open>The loop of \<open>checksum\<close>: \<open>cs += uint16(b)\<close> for every byte, in a uint16.\<close>

fun checksum_loop :: "uint16 \<Rightarrow> byte list \<Rightarrow> uint16" where
  "checksum_loop cs [] = cs"
| "checksum_loop cs (b # body) = checksum_loop (cs + ucast b) body"

definition checksum :: "byte list \<Rightarrow> uint16" where
  "checksum body = checksum_loop 0 body"

definition Bytes :: "Packet \<Rightarrow> error + byte list" where
  "Bytes p =
     (if int (length (Data p)) > 0xFF then Inl (Sentinel ErrMaxDataSizeExceeded)
      else
        let body = [bytesFromUint16 (Header p) ! 0,
                    bytesFromUint16 (Header p) ! 1,
                    bytesFromUint16 (Source p) ! 0,
                    bytesFromUint16 (Source p) ! 1,
                    bytesFromUint16 (Destination p) ! 0,
                    bytesFromUint16 (Destination p) ! 1,
                    ControlCode p,
                    FunctionCode p,
                    word_of_int (int (length (Data p)))];
            body = body @ Data p;
            body = body @ bytesFromUint16 (checksum body)
        in Inr body)"

definition DefaultPacket :: Packet where
  "DefaultPacket =
     \<lparr>Header = 0xAA55, Source = 0x0000, Destination = 0x0000,
      ControlCode = 0, FunctionCode = 0, Data = []\<rparr>"

definition ParsePacket :: "byte list \<Rightarrow> error + Packet" where
  "ParsePacket res =
     (if int (length res) < 11
      then Inl (Wrapped ErrInvalidBody (MinimumPacketSize (int (length res))))
      else
        bind (index res 8) (\<lambda>b8.
        let dataLength = uint b8 in
        if int (length res) \<noteq> dataLength + 11
        then Inl (Wrapped ErrInvalidBody
                    (SpecifiesLength (dataLength + 11) (int (length res))))
        else
          bind (slicing res (int (length res) - 2) (int (length res))) (\<lambda>tail.
          bind (array2 tail) (\<lambda>cs.
          bind (slicing res 0 (int (length res) - 2)) (\<lambda>summed.
          if checksum summed \<noteq> uint16FromBytes cs
          then Inl (Wrapped ErrInvalidBody
                      (ChecksumMismatch (uint16FromBytes cs) (checksum summed)))
          else
            bind (uint16At res 0 2) (\<lambda>h.
            if h \<noteq> 0xAA55
            then Inl (Wrapped ErrInvalidBody (HeaderMismatch h))
            else
              bind (uint16At res 0 2) (\<lambda>header.
              bind (uint16At res 2 4) (\<lambda>source.
              bind (uint16At res 4 6) (\<lambda>destination.
              bind (index res 6) (\<lambda>controlCode.
              bind (index res 7) (\<lambda>functionCode.
              bind (slicing res 9 (9 + dataLength)) (\<lambda>data.
              Inr \<lparr>Header = header, Source = source, Destination = destination,
                   ControlCode = controlCode, FunctionCode = functionCode,
                   Data = data\<rparr>))))))))))))"

section \<open>Calls related to inverter registration\<close>

record UnregisteredInverterResponse =
  Serial :: "byte list"

definition UnregisteredInverterRequest :: Packet where
  "UnregisteredInverterRequest =
     DefaultPacket\<lparr>ControlCode := ControlCodeRegister, FunctionCode := 0x00\<rparr>"

definition ParseUnregisteredInverterResponse ::
    "byte list \<Rightarrow> error + UnregisteredInverterResponse" where
  "ParseUnregisteredInverterResponse body =
     bind (ParsePacket body) (\<lambda>p.
       if ControlCode p \<noteq> ControlCodeRegister
       then Inl (Wrapped ErrUnexpectedControlCode (ExpectedGot 0x10 (ControlCode p)))
       else if FunctionCode p \<noteq> 0x80
       then Inl (Wrapped ErrUnexpectedFunctionCode (ExpectedGot 0x80 (FunctionCode p)))
       else Inr \<lparr>Serial = Data p\<rparr>)"

definition RegisterInverterRequest :: "byte list \<Rightarrow> byte \<Rightarrow> Packet" where
  "RegisterInverterRequest serial address =
     DefaultPacket\<lparr>ControlCode := ControlCodeRegister, FunctionCode := 0x01,
                   Data := serial @ [address]\<rparr>"

text \<open>
  The two status parsers return a Go \<open>error\<close>: \<open>None\<close> is \<open>nil\<close>. \<open>p.Data[0]\<close> is
  read twice, as in the source.
\<close>

definition ParseRegisterInverterResponse :: "byte list \<Rightarrow> error option" where
  "ParseRegisterInverterResponse body =
     (case ParsePacket body of
        Inl err \<Rightarrow> Some err
      | Inr p \<Rightarrow>
          if ControlCode p \<noteq> ControlCodeRegister
          then Some (Wrapped ErrUnexpectedControlCode (ExpectedGot 0x10 (ControlCode p)))
          else if FunctionCode p \<noteq> 0x81
          then Some (Wrapped ErrUnexpectedFunctionCode (ExpectedGot 0x81 (FunctionCode p)))
          else if int (length (Data p)) \<noteq> 1
          then Some (Wrapped ErrInvalidBody (ExpectedDataLength1 (int (length (Data p)))))
          else
            (case index (Data p) 0 of
               Inl e \<Rightarrow> Some e
             | Inr d0 \<Rightarrow>
                 if d0 = StatusNOACK then Some GotNOACK
                 else
                   (case index (Data p) 0 of
                      Inl e \<Rightarrow> Some e
                    | Inr d0 \<Rightarrow>
                        if d0 \<noteq> StatusACK
                        then Some (Wrapped ErrInvalidBody (ExpectedACKorNOACK d0))
                        else None)))"

definition UnregisterInverterRequest :: "byte list \<Rightarrow> byte \<Rightarrow> Packet" where
  "UnregisterInverterRequest serial address =
     DefaultPacket\<lparr>ControlCode := ControlCodeRegister, FunctionCode := 0x02,
                   Data := serial @ [address]\<rparr>"

text \<open>
  The function-code check is against \<open>0x82\<close>, while the text of its error names
  \<open>0x81\<close>; both are kept as the source has them.
\<close>

definition ParseUnregisterInverterResponse :: "byte list \<Rightarrow> error option" where
  "ParseUnregisterInverterResponse body =
     (case ParsePacket body of
        Inl err \<Rightarrow> Some err
      | Inr p \<Rightarrow>
          if ControlCode p \<noteq> ControlCodeRegister
          then Some (Wrapped ErrUnexpectedControlCode (ExpectedGot 0x10 (ControlCode p)))
          else if FunctionCode p \<noteq> 0x82
          then Some (Wrapped ErrUnexpectedFunctionCode (ExpectedGot 0x81 (FunctionCode p)))
          else if int (length (Data p)) \<noteq> 1
          then Some (Wrapped ErrInvalidBody (ExpectedDataLength1 (int (length (Data p)))))
          else
            (case index (Data p) 0 of
               Inl e \<Rightarrow> Some e
             | Inr d0 \<Rightarrow>
                 if d0 = StatusNOACK then Some GotNOACK
                 else
                   (case index (Data p) 0 of
                      Inl e \<Rightarrow> Some e
                    | Inr d0 \<Rightarrow>
                        if d0 \<noteq> StatusACK
                        then Some (Wrapped ErrInvalidBody (ExpectedACKorNOACK d0))
                        else None)))"

section \<open>Calls related to inverter information\<close>

definition NormalInfoRequest :: "byte \<Rightarrow> Packet" where
  "NormalInfoRequest address =
     DefaultPacket\<lparr>Destination := uint16FromBytes (0x00, address),
                   ControlCode := ControlCodeRead, FunctionCode := 0x02\<rparr>"

text \<open>The struct's blank \<open>_ uint16\<close> field cannot be read or written and is left out.\<close>

record NormalInfoResponse =
  Temperature :: uint16
  EnergyToday :: uint16
  Vpv1 :: uint16
  Vpv2 :: uint16
  Apv1 :: uint16
  Apv2 :: uint16
  Iac :: uint16
  Vac :: uint16
  Frequency :: uint16
  Power :: uint16
  EnergyTotal :: uint32
  TimeTotal :: uint32
  Mode :: uint16
  GridVoltFault :: uint16
  GridFreqFault :: uint16
  DCIFault :: uint16
  TemperatureFault :: uint16
  PV1Fault :: uint16
  PV2Fault :: uint16
  GFCFault :: uint16
  ErrMessage :: uint32

text \<open>The zero value \<open>NormalInfoResponse{}\<close>, on which the tests set single fields.\<close>

definition zeroNormalInfoResponse :: NormalInfoResponse where
  "zeroNormalInfoResponse =
     \<lparr>Temperature = 0, EnergyToday = 0, Vpv1 = 0, Vpv2 = 0, Apv1 = 0, Apv2 = 0,
      Iac = 0, Vac = 0, Frequency = 0, Power = 0, EnergyTotal = 0, TimeTotal = 0,
      Mode = 0, GridVoltFault = 0, GridFreqFault = 0, DCIFault = 0,
      TemperatureFault = 0, PV1Fault = 0, PV2Fault = 0, GFCFault = 0,
      ErrMessage = 0\<rparr>"

definition NormalInfoResponseFromData :: "byte list \<Rightarrow> error + NormalInfoResponse" where
  "NormalInfoResponseFromData data =
     (if int (length data) \<noteq> 50 then Inl (Sentinel ErrInvalidBody)
      else
        bind (uint16At data 0 2) (\<lambda>temperature.
        bind (uint16At data 2 4) (\<lambda>energyToday.
        bind (uint16At data 4 6) (\<lambda>vpv1.
        bind (uint16At data 6 8) (\<lambda>vpv2.
        bind (uint16At data 8 10) (\<lambda>apv1.
        bind (uint16At data 10 12) (\<lambda>apv2.
        bind (uint16At data 12 14) (\<lambda>iac.
        bind (uint16At data 14 16) (\<lambda>vac.
        bind (uint16At data 16 18) (\<lambda>frequency.
        bind (uint16At data 18 20) (\<lambda>power.
        bind (uint32At data 22 26) (\<lambda>energyTotal.
        bind (uint32At data 26 30) (\<lambda>timeTotal.
        bind (uint16At data 30 32) (\<lambda>mode.
        bind (uint16At data 32 34) (\<lambda>gridVoltFault.
        bind (uint16At data 34 36) (\<lambda>gridFreqFault.
        bind (uint16At data 36 38) (\<lambda>dciFault.
        bind (uint16At data 38 40) (\<lambda>temperatureFault.
        bind (uint16At data 40 42) (\<lambda>pv1Fault.
        bind (uint16At data 42 44) (\<lambda>pv2Fault.
        bind (uint16At data 44 46) (\<lambda>gfcFault.
        bind (uint32At data 46 50) (\<lambda>errMessage.
        Inr \<lparr>Temperature = temperature, EnergyToday = energyToday,
             Vpv1 = vpv1, Vpv2 = vpv2, Apv1 = apv1, Apv2 = apv2,
             Iac = iac, Vac = vac, Frequency = frequency, Power = power,
             EnergyTotal = energyTotal, TimeTotal = timeTotal, Mode = mode,
             GridVoltFault = gridVoltFault, GridFreqFault = gridFreqFault,
             DCIFault = dciFault, TemperatureFault = temperatureFault,
             PV1Fault = pv1Fault, PV2Fault = pv2Fault, GFCFault = gfcFault,
             ErrMessage = errMessage\<rparr>))))))))))))))))))))))"

definition ParseNormalInfoResponse :: "byte list \<Rightarrow> error + NormalInfoResponse" where
  "ParseNormalInfoResponse body =
     bind (ParsePacket body) (\<lambda>p.
       if ControlCode p \<noteq> ControlCodeRead
       then Inl (Wrapped ErrUnexpectedControlCode
                   (ExpectedGot ControlCodeRead (ControlCode p)))
       else if FunctionCode p \<noteq> 0x82
       then Inl (Wrapped ErrUnexpectedFunctionCode (ExpectedGot 0x82 (FunctionCode p)))
       else NormalInfoResponseFromData (Data p))"

subsection \<open>Normalisation\<close>

text \<open>
  A \<open>float64\<close> is kept as the expression that computes it: the conversion of an
  integer, or the quotient of two floats. IEEE rounding is not modelled, and no
  statement below depends on the value of a float.
\<close>

datatype float64 = Float64 int | Quotient float64 float64

record NormalizedNormalInfoResponse =
  Temperature :: uint16
  EnergyToday :: float64
  Vpv1 :: float64
  Vpv2 :: float64
  Apv1 :: float64
  Apv2 :: float64
  Iac :: float64
  Vac :: float64
  Frequency :: float64
  Power :: uint16
  EnergyTotal :: float64
  TimeTotal :: uint32
  Mode :: string
  GridVoltFault :: float64
  GridFreqFault :: float64
  DCIFault :: float64
  TemperatureFault :: float64
  PV1Fault :: float64
  PV2Fault :: float64
  GFCFault :: float64
  ErrMessage :: "string list"

text \<open>The map literal \<open>modes\<close>.\<close>

definition modes :: "uint16 \<rightharpoonup> string" where
  "modes = map_of [(0, ''Wait''), (1, ''Check''), (2, ''Normal''), (3, ''Fault''),
                   (4, ''Permanent Fault''), (5, ''Update''), (6, ''Selftest'')]"

text \<open>Reading a Go map of strings: a missing key gives the zero value, the empty string.\<close>

definition lookup :: "('k \<rightharpoonup> string) \<Rightarrow> 'k \<Rightarrow> string" where
  "lookup m k = (case m k of None \<Rightarrow> [] | Some v \<Rightarrow> v)"

text \<open>
  One statement of the chain that parses the error messages:
  \<open>if e&(uint32(2147483648)>>k) == uint32(2147483648)>>k { msgs = append(msgs, name) }\<close>.
\<close>

definition appendIfSet :: "uint32 \<Rightarrow> string list \<Rightarrow> nat \<times> string \<Rightarrow> string list" where
  "appendIfSet e msgs kn =
     (case kn of (k, name) \<Rightarrow>
        if e AND drop_bit k 2147483648 = drop_bit k 2147483648
        then msgs @ [name] else msgs)"

text \<open>The 32 statements of the chain in source order: the shift and the appended name.\<close>

definition errMessageChain :: "(nat \<times> string) list" where
  "errMessageChain =
     [(0, ''TzProtectFault''), (1, ''MainsLostFault''), (2, ''GridVoltFault''),
      (3, ''GridFreqFault''), (4, ''PLLLostFault''), (5, ''BusVoltFault''),
      (6, ''BIT06''), (7, ''OciFault''), (8, ''Dci_OCP_Fault''),
      (9, ''ResidualCurrentFault''), (10, ''PvVoltFault''),
      (11, ''Ac10Mins_Voltage_Fault''), (12, ''IsolationFault''),
      (13, ''TemperatureOverFault''), (14, ''FanFault''), (15, ''bit15''),
      (16, ''SpiCommsFault''), (17, ''SciCommsFault''), (18, ''BIT18''),
      (19, ''InputConfigFault''), (20, ''EepromFault''), (21, ''RelayFault''),
      (22, ''SampleConsistenceFault''), (23, ''ResidualCurrent_DeviceFault''),
      (24, ''BIT24''), (25, ''BIT25''), (26, ''BIT26''), (27, ''BIT27''),
      (28, ''BIT28''), (29, ''DCI_DeviceFault''), (30, ''OtherDeviceFault''),
      (31, ''BIT31'')]"

definition NormalizeInfoResponse :: "NormalInfoResponse \<Rightarrow> NormalizedNormalInfoResponse" where
  "NormalizeInfoResponse i =
     (let res =
        \<lparr>Temperature = NormalInfoResponse.Temperature i,
         EnergyToday = Quotient (Float64 (uint (NormalInfoResponse.EnergyToday i))) (Float64 10),
         Vpv1 = Quotient (Float64 (uint (NormalInfoResponse.Vpv1 i))) (Float64 10),
         Vpv2 = Quotient (Float64 (uint (NormalInfoResponse.Vpv2 i))) (Float64 10),
         Apv1 = Quotient (Float64 (uint (NormalInfoResponse.Apv1 i))) (Float64 10),
         Apv2 = Quotient (Float64 (uint (NormalInfoResponse.Apv2 i))) (Float64 10),
         Iac = Quotient (Float64 (uint (NormalInfoResponse.Iac i))) (Float64 10),
         Vac = Quotient (Float64 (uint (NormalInfoResponse.Vac i))) (Float64 10),
         Frequency = Quotient (Float64 (uint (NormalInfoResponse.Frequency i))) (Float64 100),
         Power = NormalInfoResponse.Power i,
         EnergyTotal = Quotient (Float64 (uint (NormalInfoResponse.EnergyTotal i))) (Float64 10),
         TimeTotal = NormalInfoResponse.TimeTotal i,
         Mode = lookup modes (NormalInfoResponse.Mode i),
         GridVoltFault =
           Quotient (Float64 (uint (NormalInfoResponse.GridVoltFault i))) (Float64 10),
         GridFreqFault =
           Quotient (Float64 (uint (NormalInfoResponse.GridFreqFault i))) (Float64 100),
         DCIFault = Quotient (Float64 (uint (NormalInfoResponse.DCIFault i))) (Float64 1000),
         TemperatureFault = Float64 (uint (NormalInfoResponse.TemperatureFault i)),
         PV1Fault = Quotient (Float64 (uint (NormalInfoResponse.PV1Fault i))) (Float64 10),
         PV2Fault = Quotient (Float64 (uint (NormalInfoResponse.PV2Fault i))) (Float64 10),
         GFCFault = Quotient (Float64 (uint (NormalInfoResponse.GFCFault i))) (Float64 1000),
         ErrMessage = []\<rparr>
      in res\<lparr>ErrMessage :=
               foldl (appendIfSet (NormalInfoResponse.ErrMessage i))
                     (NormalizedNormalInfoResponse.ErrMessage res) errMessageChain\<rparr>)"

subsection \<open>Device information\<close>

definition InverterInfoRequest :: "byte \<Rightarrow> Packet" where
  "InverterInfoRequest address =
     DefaultPacket\<lparr>Destination := uint16FromBytes (0x00, address),
                   ControlCode := ControlCodeRead, FunctionCode := 0x03\<rparr>"

record InverterInfoResponse =
  Phase :: byte
  RatedPower :: string
  FirmwareVersion :: string
  ModuleName :: string
  FactoryName :: string
  SerialNumber :: string
  RatedBusVoltage :: string

text \<open>The conversion \<open>string(bs)\<close>: the same bytes, as characters.\<close>

definition string_of_bytes :: "byte list \<Rightarrow> string" where
  "string_of_bytes bs = map (\<lambda>b. char_of (unat b)) bs"

definition InverterInfoResponseFromData :: "byte list \<Rightarrow> error + InverterInfoResponse" where
  "InverterInfoResponseFromData data =
     (if int (length data) < 67
      then Inl (Wrapped ErrInvalidBody (ExpectedLength67 (int (length data))))
      else
        bind (index data 9) (\<lambda>phase.
        bind (slicing data 10 16) (\<lambda>ratedPower.
        bind (slicing data 16 21) (\<lambda>firmwareVersion.
        bind (slicing data 21 35) (\<lambda>moduleName.
        bind (slicing data 35 49) (\<lambda>factoryName.
        bind (slicing data 49 63) (\<lambda>serialNumber.
        bind (slicing data 63 67) (\<lambda>ratedBusVoltage.
        Inr \<lparr>Phase = phase,
             RatedPower = string_of_bytes ratedPower,
             FirmwareVersion = string_of_bytes firmwareVersion,
             ModuleName = string_of_bytes moduleName,
             FactoryName = string_of_bytes factoryName,
             SerialNumber = string_of_bytes serialNumber,
             RatedBusVoltage = string_of_bytes ratedBusVoltage\<rparr>))))))))"

definition ParseInverterInfoResponse :: "byte list \<Rightarrow> error + InverterInfoResponse" where
  "ParseInverterInfoResponse body =
     bind (ParsePacket body) (\<lambda>p.
       if ControlCode p \<noteq> ControlCodeRead
       then Inl (Wrapped ErrUnexpectedControlCode
                   (ExpectedGot ControlCodeRead (ControlCode p)))
       else if FunctionCode p \<noteq> 0x83
       then Inl (Wrapped ErrUnexpectedFunctionCode (ExpectedGot 0x83 (FunctionCode p)))
       else InverterInfoResponseFromData (Data p))"

section \<open>The client\<close>

text \<open>
  The \<open>Connection\<close> interface is the program's boundary: its methods are parameters
  of the model, acting on a connection state \<open>'s\<close> and returning the new state.
  An error of the connection is its message (\<open>None\<close> is \<open>nil\<close>). \<open>ReadAll\<close> is
  \<open>io.ReadAll\<close> applied to the connection: the bytes read until end of input or an
  error, together with that error. \<open>Close\<close> is never called by the client.
\<close>

record 's Connection =
  Flush :: "'s \<Rightarrow> string option \<times> 's"
  Write :: "'s \<Rightarrow> byte list \<Rightarrow> (int \<times> string option) \<times> 's"
  ReadAll :: "'s \<Rightarrow> (byte list \<times> string option) \<times> 's"

record 's Client =
  Conn :: 's
  LastResponse :: "byte list"
  WaitTime :: int \<comment> \<open>a \<open>time.Duration\<close>, in nanoseconds\<close>

definition NewClientWithConnection :: "'s \<Rightarrow> error + 's Client" where
  "NewClientWithConnection conn =
     Inr \<lparr>Conn = conn, LastResponse = [], WaitTime = 250 * 1000000\<rparr>"

record Inverter =
  Serial :: "byte list"
  Address :: byte

subsection \<open>Communication\<close>

definition Send :: "'s Connection \<Rightarrow> 's Client \<Rightarrow> byte list \<Rightarrow> error option \<times> 's Client" where
  "Send conn c req =
     (case Write conn (Conn c) req of
        ((n, err), s) \<Rightarrow>
          (let c = c\<lparr>Conn := s\<rparr> in
           case err of
             Some e \<Rightarrow> (Some (ConnError e), c)
           | None \<Rightarrow>
               if n \<noteq> int (length req) then (Some (Sentinel ErrIncompleteWrite), c)
               else (None, c)))"

text \<open>
  \<open>Read\<close> sleeps for \<open>WaitTime\<close> (time is not modelled), reads everything, stores
  the bytes in \<open>LastResponse\<close> and returns them with the error.
\<close>

definition Read :: "'s Connection \<Rightarrow> 's Client \<Rightarrow> (byte list \<times> error option) \<times> 's Client" where
  "Read conn c =
     (case ReadAll conn (Conn c) of
        ((response, err), s) \<Rightarrow>
          ((response, map_option ConnError err), c\<lparr>Conn := s, LastResponse := response\<rparr>))"

subsection \<open>Registration\<close>

definition FindUnregisteredInverter ::
    "'s Connection \<Rightarrow> 's Client \<Rightarrow> (error + Inverter) \<times> 's Client" where
  "FindUnregisteredInverter conn c =
     (case Flush conn (Conn c) of
        (ferr, s) \<Rightarrow>
          (let c = c\<lparr>Conn := s\<rparr> in
           case ferr of
             Some e \<Rightarrow> (Inl (ConnError e), c)
           | None \<Rightarrow>
              (case Bytes UnregisteredInverterRequest of
                 Inl e \<Rightarrow> (Inl e, c)
               | Inr req \<Rightarrow>
                  (case Send conn c req of
                     (Some e, c) \<Rightarrow> (Inl e, c)
                   | (None, c) \<Rightarrow>
                      (case Read conn c of
                         ((resp, Some e), c) \<Rightarrow> (Inl e, c)
                       | ((resp, None), c) \<Rightarrow>
                           if int (length resp) = 0 then (Inl (Sentinel ErrNoInverter), c)
                           else
                             (case ParseUnregisteredInverterResponse resp of
                                Inl e \<Rightarrow> (Inl e, c)
                              | Inr r \<Rightarrow>
                                  (Inr \<lparr>Serial = UnregisteredInverterResponse.Serial r,
                                        Address = 0\<rparr>, c)))))))"

text \<open>
  \<open>RegisterInverter\<close> and \<open>UnregisterInverter\<close> take a pointer to the caller's
  inverter: \<open>None\<close> is \<open>nil\<close>, and the inverter as it is after the call is returned
  with the error. \<open>append(serial, address)\<close> in the request builders writes the
  address behind the end of the \<open>Serial\<close> slice when the slice has spare capacity;
  the inverter cannot see that byte. A \<open>Serial\<close> returned by
  \<open>FindUnregisteredInverter\<close> is a slice of the response buffer, so there the write
  lands in the buffer that \<open>LastResponse\<close> still holds, on its first checksum byte,
  until the next \<open>Read\<close> replaces the buffer. \<open>LastResponse\<close> is a value here and
  does not show that write: on the paths that return before \<open>Read\<close> (encoding or
  sending failed) the client returned by the model is exact only for an inverter
  whose serial has an array of its own, and no statement below speaks of
  \<open>LastResponse\<close> on those paths.
\<close>

definition RegisterInverter ::
    "'s Connection \<Rightarrow> 's Client \<Rightarrow> Inverter option \<Rightarrow> byte
       \<Rightarrow> error option \<times> Inverter option \<times> 's Client" where
  "RegisterInverter conn c inverter address =
     (case inverter of
        None \<Rightarrow> (Some InverterNil, inverter, c)
      | Some ivt \<Rightarrow>
         (case Flush conn (Conn c) of
            (ferr, s) \<Rightarrow>
              (let c = c\<lparr>Conn := s\<rparr> in
               case ferr of
                 Some e \<Rightarrow> (Some (ConnError e), inverter, c)
               | None \<Rightarrow>
                  (case Bytes (RegisterInverterRequest (Inverter.Serial ivt) address) of
                     Inl e \<Rightarrow> (Some e, inverter, c)
                   | Inr req \<Rightarrow>
                      (case Send conn c req of
                         (Some e, c) \<Rightarrow> (Some e, inverter, c)
                       | (None, c) \<Rightarrow>
                          (case Read conn c of
                             ((resp, Some e), c) \<Rightarrow> (Some e, inverter, c)
                           | ((resp, None), c) \<Rightarrow>
                              (case ParseRegisterInverterResponse resp of
                                 Some e \<Rightarrow> (Some e, inverter, c)
                               | None \<Rightarrow>
                                   (None, Some (ivt\<lparr>Address := address\<rparr>), c))))))))"

definition UnregisterInverter ::
    "'s Connection \<Rightarrow> 's Client \<Rightarrow> Inverter option
       \<Rightarrow> error option \<times> Inverter option \<times> 's Client" where
  "UnregisterInverter conn c inverter =
     (case inverter of
        None \<Rightarrow> (Some InverterNil, inverter, c)
      | Some ivt \<Rightarrow>
         (case Flush conn (Conn c) of
            (ferr, s) \<Rightarrow>
              (let c = c\<lparr>Conn := s\<rparr> in
               case ferr of
                 Some e \<Rightarrow> (Some (ConnError e), inverter, c)
               | None \<Rightarrow>
                  (case Bytes (UnregisterInverterRequest (Inverter.Serial ivt) (Address ivt)) of
                     Inl e \<Rightarrow> (Some e, inverter, c)
                   | Inr req \<Rightarrow>
                      (case Send conn c req of
                         (Some e, c) \<Rightarrow> (Some e, inverter, c)
                       | (None, c) \<Rightarrow>
                          (case Read conn c of
                             ((resp, Some e), c) \<Rightarrow> (Some e, inverter, c)
                           | ((resp, None), c) \<Rightarrow>
                              (case ParseUnregisterInverterResponse resp of
                                 Some e \<Rightarrow> (Some e, inverter, c)
                               | None \<Rightarrow>
                                   (None, Some (ivt\<lparr>Address := 0x00\<rparr>), c))))))))"

subsection \<open>Information\<close>

definition GetInfo ::
    "'s Connection \<Rightarrow> 's Client \<Rightarrow> Inverter option
       \<Rightarrow> (error + NormalInfoResponse) \<times> 's Client" where
  "GetInfo conn c inverter =
     (case inverter of
        None \<Rightarrow> (Inl InverterNil, c)
      | Some ivt \<Rightarrow>
         (case Flush conn (Conn c) of
            (ferr, s) \<Rightarrow>
              (let c = c\<lparr>Conn := s\<rparr> in
               case ferr of
                 Some e \<Rightarrow> (Inl (ConnError e), c)
               | None \<Rightarrow>
                  (case Bytes (NormalInfoRequest (Address ivt)) of
                     Inl e \<Rightarrow> (Inl e, c)
                   | Inr req \<Rightarrow>
                      (case Send conn c req of
                         (Some e, c) \<Rightarrow> (Inl e, c)
                       | (None, c) \<Rightarrow>
                          (case Read conn c of
                             ((resp, Some e), c) \<Rightarrow> (Inl e, c)
                           | ((resp, None), c) \<Rightarrow>
                              (case ParseNormalInfoResponse resp of
                                 Inl e \<Rightarrow> (Inl e, c)
                               | Inr result \<Rightarrow> (Inr result, c))))))))"

definition GetInverterInfo ::
    "'s Connection \<Rightarrow> 's Client \<Rightarrow> Inverter option
       \<Rightarrow> (error + InverterInfoResponse) \<times> 's Client" where
  "GetInverterInfo conn c inverter =
     (case inverter of
        None \<Rightarrow> (Inl InverterNil, c)
      | Some ivt \<Rightarrow>
         (case Flush conn (Conn c) of
            (ferr, s) \<Rightarrow>
              (let c = c\<lparr>Conn := s\<rparr> in
               case ferr of
                 Some e \<Rightarrow> (Inl (ConnError e), c)
               | None \<Rightarrow>
                  (case Bytes (InverterInfoRequest (Address ivt)) of
                     Inl e \<Rightarrow> (Inl e, c)
                   | Inr req \<Rightarrow>
                      (case Send conn c req of
                         (Some e, c) \<Rightarrow> (Inl e, c)
                       | (None, c) \<Rightarrow>
                          (case Read conn c of
                             ((resp, Some e), c) \<Rightarrow> (Inl e, c)
                           | ((resp, None), c) \<Rightarrow>
                              (case ParseInverterInfoResponse resp of
                                 Inl e \<Rightarrow> (Inl e, c)
                               | Inr result \<Rightarrow> (Inr result, c))))))))"

subsection \<open>A scripted connection\<close>

text \<open>
  The connection of the examples below. Its state is the bytes the device will
  answer: flushing and writing succeed and leave them, reading returns them and
  leaves nothing. The client on it is the one \<open>NewClientWithConnection\<close> builds.
\<close>

definition scriptedConnection :: "byte list Connection" where
  "scriptedConnection =
     \<lparr>Flush = (\<lambda>s. (None, s)),
      Write = (\<lambda>s bs. ((int (length bs), None), s)),
      ReadAll = (\<lambda>s. ((s, None), []))\<rparr>"

definition exampleClient :: "byte list \<Rightarrow> byte list Client" where
  "exampleClient answer = \<lparr>Conn = answer, LastResponse = [], WaitTime = 250 * 1000000\<rparr>"

section \<open>Auxiliary facts\<close>

lemma unat_uint16_less: "unat (c :: uint16) < 65536"
  using unsigned_less [of c, where 'a = nat] by simp

lemma unat_byte_less: "unat (c :: byte) < 256"
  using unsigned_less [of c, where 'a = nat] by simp

lemma unat_ucast_byte: "unat (ucast (b :: byte) :: uint16) = unat b"
  using unat_byte_less [of b] by (simp add: unsigned_ucast_eq take_bit_nat_eq_self_iff)

lemma unat_uint16FromBytes: "unat (uint16FromBytes (a, b)) = unat a * 256 + unat b"
proof -
  have "unat a * 256 + unat b < 65536"
    using unat_byte_less [of a] unat_byte_less [of b] by arith
  then show ?thesis
    by (simp add: uint16FromBytes_def unat_word_ariths unat_ucast_byte)
qed

lemma bytesFromUint16_nth:
  "bytesFromUint16 x ! 0 = ucast (drop_bit 8 x)" "bytesFromUint16 x ! 1 = ucast x"
proof -
  show "bytesFromUint16 x ! 0 = ucast (drop_bit 8 x)"
    by (simp add: bytesFromUint16_def drop_bit_eq_div)
  have "unat (ucast (x mod 256) :: byte) = unat (ucast x :: byte)"
    by (simp add: unsigned_ucast_eq unat_mod take_bit_nat_eq_self_iff take_bit_eq_mod)
  then show "bytesFromUint16 x ! 1 = ucast x"
    by (simp add: bytesFromUint16_def word_unat_eq_iff)
qed

lemma uint16FromBytes_bytesFromUint16:
  "uint16FromBytes (ucast (drop_bit 8 x), ucast x) = (x :: uint16)"
proof -
  have a: "unat (ucast (drop_bit 8 x) :: byte) = unat x div 256"
    using unat_uint16_less [of x]
    by (simp add: unsigned_ucast_eq drop_bit_eq_div unat_div take_bit_nat_eq_self_iff)
  have b: "unat (ucast x :: byte) = unat x mod 256"
    by (simp add: unsigned_ucast_eq take_bit_eq_mod)
  show ?thesis
    by (simp add: word_unat_eq_iff unat_uint16FromBytes a b)
qed

lemma checksum_loop_sum:
  "checksum_loop c xs = c + word_of_nat (sum_list (map unat xs))"
  by (induction xs arbitrary: c) (simp_all add: add.assoc)

lemma checksum_sum: "checksum xs = word_of_nat (sum_list (map unat xs))"
  by (simp add: checksum_def checksum_loop_sum)

lemma unat_checksum: "unat (checksum xs) = sum_list (map unat xs) mod 65536"
  by (simp add: checksum_sum unat_of_nat)

lemma array2_drop:
  "k + 2 \<le> length xs \<Longrightarrow> array2 (take 2 (drop k xs)) = Inr (xs ! k, xs ! Suc k)"
proof -
  assume "k + 2 \<le> length xs"
  then have "drop k xs = xs ! k # xs ! Suc k # drop (Suc (Suc k)) xs"
    by (simp add: Cons_nth_drop_Suc)
  then show ?thesis by (simp add: numeral_2_eq_2)
qed

lemma array4_drop:
  "k + 4 \<le> length xs \<Longrightarrow>
   array4 (take 4 (drop k xs)) = Inr (xs ! k, xs ! (k + 1), xs ! (k + 2), xs ! (k + 3))"
proof -
  assume "k + 4 \<le> length xs"
  then have "drop k xs =
      xs ! k # xs ! (k + 1) # xs ! (k + 2) # xs ! (k + 3) # drop (k + 4) xs"
    by (simp add: Cons_nth_drop_Suc numeral_eq_Suc)
  then show ?thesis by (simp add: numeral_eq_Suc)
qed

lemma uint16At_in:
  "0 \<le> lo \<Longrightarrow> hi = lo + 2 \<Longrightarrow> hi \<le> int (length data) \<Longrightarrow>
   uint16At data lo hi = Inr (uint16FromBytes (data ! nat lo, data ! Suc (nat lo)))"
  by (simp add: uint16At_def slicing_def bind_def array2_drop)

lemma uint32At_in:
  "0 \<le> lo \<Longrightarrow> hi = lo + 4 \<Longrightarrow> hi \<le> int (length data) \<Longrightarrow>
   uint32At data lo hi =
     Inr (uint32FromBytes (data ! nat lo, data ! (nat lo + 1), data ! (nat lo + 2),
                           data ! (nat lo + 3)))"
  by (simp add: uint32At_def slicing_def bind_def array4_drop)


lemma ParsePacket_short:
  "length res < 11 \<Longrightarrow>
   ParsePacket res = Inl (Wrapped ErrInvalidBody (MinimumPacketSize (int (length res))))"
  by (simp add: ParsePacket_def)

lemma ParsePacket_length:
  "11 \<le> length res \<Longrightarrow> int (length res) \<noteq> uint (res ! 8) + 11 \<Longrightarrow>
   ParsePacket res =
     Inl (Wrapped ErrInvalidBody (SpecifiesLength (uint (res ! 8) + 11) (int (length res))))"
  by (simp add: ParsePacket_def index_def bind_def Let_def)

lemma ParsePacket_framed:
  assumes "11 \<le> length res" and "int (length res) = uint (res ! 8) + 11"
  shows "ParsePacket res =
     (if checksum (take (length res - 2) res)
           \<noteq> uint16FromBytes (res ! (length res - 2), res ! (length res - 1))
      then Inl (Wrapped ErrInvalidBody
                  (ChecksumMismatch
                     (uint16FromBytes (res ! (length res - 2), res ! (length res - 1)))
                     (checksum (take (length res - 2) res))))
      else if uint16FromBytes (res ! 0, res ! 1) \<noteq> 0xAA55
      then Inl (Wrapped ErrInvalidBody (HeaderMismatch (uint16FromBytes (res ! 0, res ! 1))))
      else Inr \<lparr>Header = uint16FromBytes (res ! 0, res ! 1),
                Source = uint16FromBytes (res ! 2, res ! 3),
                Destination = uint16FromBytes (res ! 4, res ! 5),
                ControlCode = res ! 6, FunctionCode = res ! 7,
                Data = take (length res - 11) (drop 9 res)\<rparr>)"
proof -
  let ?n = "length res"
  have i8: "index res 8 = Inr (res ! 8)"
    using assms(1) by (simp add: index_def)
  have i6: "index res 6 = Inr (res ! 6)" and i7: "index res 7 = Inr (res ! 7)"
    using assms(1) by (simp_all add: index_def)
  have tl: "slicing res (int ?n - 2) (int ?n) = Inr (take 2 (drop (?n - 2) res))"
    using assms(1) by (simp add: slicing_def nat_diff_distrib)
  have a2: "array2 (take 2 (drop (?n - 2) res)) = Inr (res ! (?n - 2), res ! (?n - 1))"
  proof -
    have "Suc (?n - 2) = ?n - 1" using assms(1) by arith
    then show ?thesis using assms(1) array2_drop [of "?n - 2" res] by simp
  qed
  have sm: "slicing res 0 (int ?n - 2) = Inr (take (?n - 2) res)"
    using assms(1) by (simp add: slicing_def nat_diff_distrib)
  have h: "uint16At res 0 2 = Inr (uint16FromBytes (res ! 0, res ! 1))"
    using assms(1) uint16At_in [of 0 2 res] by simp
  have s: "uint16At res 2 4 = Inr (uint16FromBytes (res ! 2, res ! 3))"
    using assms(1) uint16At_in [of 2 4 res] by (simp add: numeral_eq_Suc)
  have d: "uint16At res 4 6 = Inr (uint16FromBytes (res ! 4, res ! 5))"
    using assms(1) uint16At_in [of 4 6 res] by (simp add: numeral_eq_Suc)
  have dl: "unat (res ! 8) = ?n - 11"
    using assms unfolding unat_eq_nat_uint by arith
  have dt: "slicing res 9 (9 + uint (res ! 8)) = Inr (take (?n - 11) (drop 9 res))"
    using assms by (simp add: slicing_def dl)
  have f1: "(int ?n < 11) = False" using assms(1) by simp
  have f2: "(int ?n \<noteq> uint (res ! 8) + 11) = False" using assms(2) by simp
  show ?thesis
    by (simp only: ParsePacket_def bind_def Let_def f1 f2 i8 i6 i7 tl a2 sm h s d dt
          sum.case if_False)
qed

lemma uint16FromBytes_eq_header:
  "uint16FromBytes (a, b) = 0xAA55 \<longleftrightarrow> a = 0xAA \<and> b = 0x55"
proof -
  have "unat a * 256 + unat b = 43605 \<longleftrightarrow> unat a = 170 \<and> unat b = 85"
    using unat_byte_less [of a] unat_byte_less [of b] by arith
  then show ?thesis
    by (simp add: word_unat_eq_iff unat_uint16FromBytes)
qed

lemma declared_length_iff: "unat (b :: byte) + 11 = n \<longleftrightarrow> int n = uint b + 11"
proof -
  have "uint b = int (unat b)" by simp
  then show ?thesis by linarith
qed

lemma Bytes_ok:
  "length (Data p) \<le> 255 \<Longrightarrow>
   Bytes p =
     Inr ([ucast (drop_bit 8 (Header p)), ucast (Header p),
           ucast (drop_bit 8 (Source p)), ucast (Source p),
           ucast (drop_bit 8 (Destination p)), ucast (Destination p),
           ControlCode p, FunctionCode p, word_of_nat (length (Data p))]
          @ Data p
          @ [ucast (drop_bit 8
                (checksum ([ucast (drop_bit 8 (Header p)), ucast (Header p),
                   ucast (drop_bit 8 (Source p)), ucast (Source p),
                   ucast (drop_bit 8 (Destination p)), ucast (Destination p),
                   ControlCode p, FunctionCode p, word_of_nat (length (Data p))]
                  @ Data p))),
             ucast (checksum ([ucast (drop_bit 8 (Header p)), ucast (Header p),
                   ucast (drop_bit 8 (Source p)), ucast (Source p),
                   ucast (drop_bit 8 (Destination p)), ucast (Destination p),
                   ControlCode p, FunctionCode p, word_of_nat (length (Data p))]
                  @ Data p))])"
proof -
  have b: "\<And>x. bytesFromUint16 x = [ucast (drop_bit 8 x), ucast x]"
    subgoal for x
      using bytesFromUint16_nth [of x] by (simp add: bytesFromUint16_def)
    done
  assume "length (Data p) \<le> 255"
  then show ?thesis
    by (simp add: Bytes_def Let_def b)
qed

lemma Bytes_too_large:
  "255 < length (Data p) \<Longrightarrow> Bytes p = Inl (Sentinel ErrMaxDataSizeExceeded)"
  by (simp add: Bytes_def)



lemma uint_length_byte: "n \<le> 255 \<Longrightarrow> uint (word_of_nat n :: byte) = int n"
proof -
  assume "n \<le> 255"
  then have "unat (word_of_nat n :: byte) = n" by (simp add: unat_of_nat)
  then show ?thesis by (simp only: uint_nat)
qed

lemma ParsePacket_frame:
  fixes d :: "byte list"
  assumes "length d \<le> 255"
    and "hd9 = [h0, h1, s0, s1, d0, d1, cc, fc, word_of_nat (length d)]"
  shows "ParsePacket (hd9 @ d @ [c0, c1]) =
     (if checksum (hd9 @ d) \<noteq> uint16FromBytes (c0, c1)
      then Inl (Wrapped ErrInvalidBody
                  (ChecksumMismatch (uint16FromBytes (c0, c1)) (checksum (hd9 @ d))))
      else if uint16FromBytes (h0, h1) \<noteq> 0xAA55
      then Inl (Wrapped ErrInvalidBody (HeaderMismatch (uint16FromBytes (h0, h1))))
      else Inr \<lparr>Header = uint16FromBytes (h0, h1),
                Source = uint16FromBytes (s0, s1),
                Destination = uint16FromBytes (d0, d1),
                ControlCode = cc, FunctionCode = fc, Data = d\<rparr>)"
proof -
  let ?res = "hd9 @ d @ [c0, c1]"
  have lh: "length hd9 = 9" by (simp add: assms(2))
  have len: "length ?res = length d + 11" by (simp add: lh)
  have r8: "?res ! 8 = word_of_nat (length d)" by (simp add: assms(2))
  have 1: "11 \<le> length ?res" by (simp add: lh)
  have 2: "int (length ?res) = uint (?res ! 8) + 11"
    unfolding r8 len using assms(1) by (simp add: uint_length_byte)
  have tk: "take (length ?res - 2) ?res = hd9 @ d"
    by (simp add: lh)
  have c0: "?res ! (length ?res - 2) = c0"
    unfolding len by (simp add: nth_append lh)
  have c1: "?res ! (length ?res - 1) = c1"
    unfolding len by (simp add: nth_append lh)
  have dt: "take (length ?res - 11) (drop 9 ?res) = d"
    by (simp add: lh)
  have hs: "?res ! 0 = h0" "?res ! 1 = h1" "?res ! 2 = s0" "?res ! 3 = s1"
    "?res ! 4 = d0" "?res ! 5 = d1" "?res ! 6 = cc" "?res ! 7 = fc"
    by (simp_all add: assms(2))
  show ?thesis
    unfolding ParsePacket_framed [OF 1 2] tk c0 c1 dt hs by (rule refl)
qed

lemma NormalInfoResponseFromData_50:
  "length data = 50 \<Longrightarrow> \<exists>r. NormalInfoResponseFromData data = Inr r"
  by (simp add: NormalInfoResponseFromData_def bind_def uint16At_in uint32At_in)

lemma InverterInfoResponseFromData_67:
  "67 \<le> length data \<Longrightarrow> \<exists>r. InverterInfoResponseFromData data = Inr r"
  by (simp add: InverterInfoResponseFromData_def bind_def index_def slicing_def)

lemma status_index: "index [s] 0 = Inr s"
  by (simp add: index_def)

lemma ParseRegisterInverterResponse_ok:
  "ParseRegisterInverterResponse resp = None \<Longrightarrow>
   \<exists>p. ParsePacket resp = Inr p \<and> ControlCode p = 0x10 \<and> FunctionCode p = 0x81
       \<and> Data p = [0x06]"
  by (cases "ParsePacket resp")
     (auto simp: ParseRegisterInverterResponse_def ControlCodeRegister_def StatusACK_def
        StatusNOACK_def index_def length_Suc_conv split: if_splits sum.splits)

lemma ParseUnregisterInverterResponse_ok:
  "ParseUnregisterInverterResponse resp = None \<Longrightarrow>
   \<exists>p. ParsePacket resp = Inr p \<and> ControlCode p = 0x10 \<and> FunctionCode p = 0x82
       \<and> Data p = [0x06]"
  by (cases "ParsePacket resp")
     (auto simp: ParseUnregisterInverterResponse_def ControlCodeRegister_def StatusACK_def
        StatusNOACK_def index_def length_Suc_conv split: if_splits sum.splits)

lemma Bytes_RegisterInverterRequest:
  "Bytes (RegisterInverterRequest serial address) =
     (if 254 < length serial then Inl (Sentinel ErrMaxDataSizeExceeded)
      else Inr (let body = [0xAA, 0x55, 0, 0, 0, 0, 0x10, 0x01,
                            word_of_nat (length serial + 1)] @ serial @ [address];
                    cs = (word_of_nat (sum_list (map unat body)) :: uint16)
                in body @ [ucast (drop_bit 8 cs), ucast cs]))"
proof (cases "254 < length serial")
  case True
  then have "255 < length (Data (RegisterInverterRequest serial address))"
    by (simp add: RegisterInverterRequest_def)
  from Bytes_too_large [OF this] True show ?thesis by simp
next
  case False
  then have "length (Data (RegisterInverterRequest serial address)) \<le> 255"
    by (simp add: RegisterInverterRequest_def)
  from Bytes_ok [OF this] False show ?thesis
    by (simp add: RegisterInverterRequest_def DefaultPacket_def ControlCodeRegister_def
        checksum_sum Let_def)
qed

lemma Bytes_UnregisterInverterRequest:
  "Bytes (UnregisterInverterRequest serial address) =
     (if 254 < length serial then Inl (Sentinel ErrMaxDataSizeExceeded)
      else Inr (let body = [0xAA, 0x55, 0, 0, 0, 0, 0x10, 0x02,
                            word_of_nat (length serial + 1)] @ serial @ [address];
                    cs = (word_of_nat (sum_list (map unat body)) :: uint16)
                in body @ [ucast (drop_bit 8 cs), ucast cs]))"
proof (cases "254 < length serial")
  case True
  then have "255 < length (Data (UnregisterInverterRequest serial address))"
    by (simp add: UnregisterInverterRequest_def)
  from Bytes_too_large [OF this] True show ?thesis by simp
next
  case False
  then have "length (Data (UnregisterInverterRequest serial address)) \<le> 255"
    by (simp add: UnregisterInverterRequest_def)
  from Bytes_ok [OF this] False show ?thesis
    by (simp add: UnregisterInverterRequest_def DefaultPacket_def ControlCodeRegister_def
        checksum_sum Let_def)
qed

lemma RegisterInverter_result:
  "RegisterInverter conn c (Some ivt) address = (err, inverter', c') \<Longrightarrow>
   err = (case Flush conn (Conn c) of
            (Some e, s1) \<Rightarrow> Some (ConnError e)
          | (None, s1) \<Rightarrow>
             (case Bytes (RegisterInverterRequest (Inverter.Serial ivt) address) of
                Inl e \<Rightarrow> Some e
              | Inr req \<Rightarrow>
                 (case Write conn s1 req of
                    ((n, Some e), s2) \<Rightarrow> Some (ConnError e)
                  | ((n, None), s2) \<Rightarrow>
                      if n \<noteq> int (length req) then Some (Sentinel ErrIncompleteWrite)
                      else
                        (case ReadAll conn s2 of
                           ((resp, Some e), s3) \<Rightarrow> Some (ConnError e)
                         | ((resp, None), s3) \<Rightarrow> ParseRegisterInverterResponse resp))))
   \<and> inverter' = Some (if err = None then ivt\<lparr>Address := address\<rparr> else ivt)"
  by (auto simp: RegisterInverter_def Send_def Read_def Let_def
        split: prod.splits option.splits sum.splits if_splits)

lemma UnregisterInverter_result:
  "UnregisterInverter conn c (Some ivt) = (err, inverter', c') \<Longrightarrow>
   err = (case Flush conn (Conn c) of
            (Some e, s1) \<Rightarrow> Some (ConnError e)
          | (None, s1) \<Rightarrow>
             (case Bytes (UnregisterInverterRequest (Inverter.Serial ivt) (Address ivt)) of
                Inl e \<Rightarrow> Some e
              | Inr req \<Rightarrow>
                 (case Write conn s1 req of
                    ((n, Some e), s2) \<Rightarrow> Some (ConnError e)
                  | ((n, None), s2) \<Rightarrow>
                      if n \<noteq> int (length req) then Some (Sentinel ErrIncompleteWrite)
                      else
                        (case ReadAll conn s2 of
                           ((resp, Some e), s3) \<Rightarrow> Some (ConnError e)
                         | ((resp, None), s3) \<Rightarrow> ParseUnregisterInverterResponse resp))))
   \<and> inverter' = Some (if err = None then ivt\<lparr>Address := 0\<rparr> else ivt)"
  by (auto simp: UnregisterInverter_def Send_def Read_def Let_def
        split: prod.splits option.splits sum.splits if_splits)


lemma ParseRegisterInverterResponse_ack:
  "ParseRegisterInverterResponse resp = None \<longleftrightarrow>
   (\<exists>p. ParsePacket resp = Inr p \<and> ControlCode p = 0x10 \<and> FunctionCode p = 0x81
        \<and> Data p = [0x06])"
proof
  assume "ParseRegisterInverterResponse resp = None"
  then show "\<exists>p. ParsePacket resp = Inr p \<and> ControlCode p = 0x10 \<and> FunctionCode p = 0x81
        \<and> Data p = [0x06]"
    by (rule ParseRegisterInverterResponse_ok)
next
  assume "\<exists>p. ParsePacket resp = Inr p \<and> ControlCode p = 0x10 \<and> FunctionCode p = 0x81
        \<and> Data p = [0x06]"
  then show "ParseRegisterInverterResponse resp = None"
    by (auto simp: ParseRegisterInverterResponse_def ControlCodeRegister_def StatusACK_def
        StatusNOACK_def status_index)
qed

lemma ParseUnregisterInverterResponse_ack:
  "ParseUnregisterInverterResponse resp = None \<longleftrightarrow>
   (\<exists>p. ParsePacket resp = Inr p \<and> ControlCode p = 0x10 \<and> FunctionCode p = 0x82
        \<and> Data p = [0x06])"
proof
  assume "ParseUnregisterInverterResponse resp = None"
  then show "\<exists>p. ParsePacket resp = Inr p \<and> ControlCode p = 0x10 \<and> FunctionCode p = 0x82
        \<and> Data p = [0x06]"
    by (rule ParseUnregisterInverterResponse_ok)
next
  assume "\<exists>p. ParsePacket resp = Inr p \<and> ControlCode p = 0x10 \<and> FunctionCode p = 0x82
        \<and> Data p = [0x06]"
  then show "ParseUnregisterInverterResponse resp = None"
    by (auto simp: ParseUnregisterInverterResponse_def ControlCodeRegister_def StatusACK_def
        StatusNOACK_def status_index)
qed

lemma ParsePacket_Nil:
  "ParsePacket [] = Inl (Wrapped ErrInvalidBody (MinimumPacketSize 0))"
  by (simp add: ParsePacket_def)

section \<open>The packet framer\<close>

text \<open>
  Claim C2. For every byte sequence, \<open>ParsePacket\<close> makes four checks in this
  order, and the first one that fails is the error returned: fewer than 11 bytes
  (the spec's FrameTooShort); declared payload length plus 11 different from the
  total length (LengthMismatch); the sum of all bytes but the last two, modulo
  65536, different from the last two bytes read as a big-endian 16-bit number
  (ChecksumMismatch); first two bytes other than 0xAA, 0x55 (BadHeader). All four
  errors wrap \<open>ErrInvalidBody\<close>. Only when all four pass is a packet returned, and an
  error never comes with a packet.
\<close>

theorem ParsePacket_checks_in_order:
  "ParsePacket res =
     (if length res < 11
      then Inl (Wrapped ErrInvalidBody (MinimumPacketSize (int (length res))))
      else if unat (res ! 8) + 11 \<noteq> length res
      then Inl (Wrapped ErrInvalidBody
                  (SpecifiesLength (uint (res ! 8) + 11) (int (length res))))
      else if sum_list (map unat (take (length res - 2) res)) mod 65536
                \<noteq> unat (res ! (length res - 2)) * 256 + unat (res ! (length res - 1))
      then Inl (Wrapped ErrInvalidBody
                  (ChecksumMismatch
                     (uint16FromBytes (res ! (length res - 2), res ! (length res - 1)))
                     (checksum (take (length res - 2) res))))
      else if (res ! 0, res ! 1) \<noteq> (0xAA, 0x55)
      then Inl (Wrapped ErrInvalidBody (HeaderMismatch (uint16FromBytes (res ! 0, res ! 1))))
      else Inr \<lparr>Header = 0xAA55,
                Source = uint16FromBytes (res ! 2, res ! 3),
                Destination = uint16FromBytes (res ! 4, res ! 5),
                ControlCode = res ! 6, FunctionCode = res ! 7,
                Data = take (unat (res ! 8)) (drop 9 res)\<rparr>)"
proof (cases "length res < 11")
  case True
  then show ?thesis by (simp add: ParsePacket_short)
next
  case long: False
  show ?thesis
  proof (cases "unat (res ! 8) + 11 = length res")
    case False
    then have "int (length res) \<noteq> uint (res ! 8) + 11"
      by (simp add: declared_length_iff)
    with long False show ?thesis by (simp add: ParsePacket_length)
  next
    case True
    then have len: "int (length res) = uint (res ! 8) + 11"
      by (simp add: declared_length_iff)
    have cs: "checksum (take (length res - 2) res)
                = uint16FromBytes (res ! (length res - 2), res ! (length res - 1))
              \<longleftrightarrow> sum_list (map unat (take (length res - 2) res)) mod 65536
                = unat (res ! (length res - 2)) * 256 + unat (res ! (length res - 1))"
      by (simp add: word_unat_eq_iff unat_checksum unat_uint16FromBytes)
    have dl: "length res - 11 = unat (res ! 8)" using True by arith
    from long have "11 \<le> length res" by simp
    note fr = ParsePacket_framed [OF this len, unfolded cs dl uint16FromBytes_eq_header]
    show ?thesis
    proof (cases "res ! 0 = 0xAA \<and> res ! 1 = 0x55")
      case True
      then have "uint16FromBytes (res ! 0, res ! 1) = 0xAA55"
        by (simp only: uint16FromBytes_eq_header)
      with True long \<open>unat (res ! 8) + 11 = length res\<close> show ?thesis
        by (simp add: fr)
    next
      case False
      with long \<open>unat (res ! 8) + 11 = length res\<close> show ?thesis
        by (auto simp add: fr)
    qed
  qed
qed

text \<open>
  Claim C3. \<open>Bytes\<close> fails, with \<open>ErrMaxDataSizeExceeded\<close> (the spec's
  PayloadTooLarge), exactly when the payload is longer than 255 bytes. Otherwise it
  returns header, source and destination, each as two bytes with the most
  significant first, then control code, function code, the payload length as one
  byte, the payload, and the checksum as two bytes, most significant first; the
  checksum is the sum of all bytes before it, in 16 bits. The result is
  11 + len(payload) bytes long.
\<close>

theorem Bytes_layout:
  "(case Bytes p of
      Inl e \<Rightarrow> e = Sentinel ErrMaxDataSizeExceeded \<and> 255 < length (Data p)
    | Inr bs \<Rightarrow>
        length (Data p) \<le> 255 \<and> length bs = 11 + length (Data p) \<and>
        (let body = [ucast (drop_bit 8 (Header p)), ucast (Header p),
                     ucast (drop_bit 8 (Source p)), ucast (Source p),
                     ucast (drop_bit 8 (Destination p)), ucast (Destination p),
                     ControlCode p, FunctionCode p, word_of_nat (length (Data p))]
                    @ Data p;
             cs = (word_of_nat (sum_list (map unat body)) :: uint16)
         in bs = body @ [ucast (drop_bit 8 cs), ucast cs]))"
proof (cases "length (Data p) \<le> 255")
  case True
  show ?thesis
    using True unfolding Bytes_ok [OF True] Let_def checksum_sum by simp
next
  case False
  then have "255 < length (Data p)" by simp
  then show ?thesis by (simp add: Bytes_too_large)
qed

text \<open>
  Claim C1 as stated, for every packet with a payload of at most 255 bytes, does
  not hold for a packet whose header is not 0xAA55: \<open>Bytes\<close> encodes the packet
  with header 0 and an empty payload, and \<open>ParsePacket\<close> rejects the result with
  the header mismatch error.
\<close>

theorem roundtrip_fails_on_other_header:
  "length (Data (DefaultPacket\<lparr>Header := 0\<rparr>)) \<le> 255
   \<and> Bytes (DefaultPacket\<lparr>Header := 0\<rparr>) = Inr [0, 0, 0, 0, 0, 0, 0, 0, 0, 0, 0]
   \<and> ParsePacket [0, 0, 0, 0, 0, 0, 0, 0, 0, 0, 0]
       = Inl (Wrapped ErrInvalidBody (HeaderMismatch 0))"
proof (intro conjI)
  show "length (Data (DefaultPacket\<lparr>Header := 0\<rparr>)) \<le> 255"
    by (simp add: DefaultPacket_def)
  show "Bytes (DefaultPacket\<lparr>Header := 0\<rparr>) = Inr [0, 0, 0, 0, 0, 0, 0, 0, 0, 0, 0]"
    by (simp add: Bytes_def DefaultPacket_def Let_def bytesFromUint16_def checksum_def)
  show "ParsePacket [0, 0, 0, 0, 0, 0, 0, 0, 0, 0, 0]
       = Inl (Wrapped ErrInvalidBody (HeaderMismatch 0))"
    by code_simp
qed

text \<open>
  Claim C1, amended. For every packet whose header is 0xAA55 and whose payload has
  at most 255 bytes, \<open>Bytes\<close> succeeds and \<open>ParsePacket\<close> of the result succeeds
  and returns the original packet: the same payload, header, source, destination,
  control code and function code.
\<close>

theorem Bytes_ParsePacket_roundtrip:
  fixes p :: Packet
  assumes "Header p = 0xAA55" and "length (Data p) \<le> 255"
  shows "\<exists>bs. Bytes p = Inr bs \<and> ParsePacket bs = Inr p"
proof -
  let ?hd9 = "[ucast (drop_bit 8 (Header p)), ucast (Header p),
               ucast (drop_bit 8 (Source p)), ucast (Source p),
               ucast (drop_bit 8 (Destination p)), ucast (Destination p),
               ControlCode p, FunctionCode p, word_of_nat (length (Data p))]"
  let ?cs = "checksum (?hd9 @ Data p)"
  let ?bs = "?hd9 @ Data p @ [ucast (drop_bit 8 ?cs), ucast ?cs]"
  have enc: "Bytes p = Inr ?bs"
    by (rule Bytes_ok [OF assms(2)])
  have "ParsePacket ?bs =
      Inr \<lparr>Header = Header p, Source = Source p, Destination = Destination p,
           ControlCode = ControlCode p, FunctionCode = FunctionCode p, Data = Data p\<rparr>"
    unfolding ParsePacket_frame [OF assms(2) refl] uint16FromBytes_bytesFromUint16
    using assms(1) by simp
  then have "ParsePacket ?bs = Inr p" by simp
  with enc show ?thesis by blast
qed

text \<open>The round trip on the packet of the fuzz test's seed, payload 0x44.\<close>

theorem Bytes_ParsePacket_roundtrip_witness:
  "Header (DefaultPacket\<lparr>Data := [0x44]\<rparr>) = 0xAA55
   \<and> length (Data (DefaultPacket\<lparr>Data := [0x44]\<rparr>)) \<le> 255
   \<and> Bytes (DefaultPacket\<lparr>Data := [0x44]\<rparr>)
       = Inr [0xAA, 0x55, 0, 0, 0, 0, 0, 0, 1, 0x44, 0x01, 0x44]
   \<and> ParsePacket [0xAA, 0x55, 0, 0, 0, 0, 0, 0, 1, 0x44, 0x01, 0x44]
       = Inr (DefaultPacket\<lparr>Data := [0x44]\<rparr>)"
proof -
  have h: "Header (DefaultPacket\<lparr>Data := [0x44]\<rparr>) = 0xAA55"
    by (simp add: DefaultPacket_def)
  have l: "length (Data (DefaultPacket\<lparr>Data := [0x44]\<rparr>)) \<le> 255"
    by simp
  have b: "Bytes (DefaultPacket\<lparr>Data := [0x44]\<rparr>)
      = Inr [0xAA, 0x55, 0, 0, 0, 0, 0, 0, 1, 0x44, 0x01, 0x44]"
    by code_simp
  from Bytes_ParsePacket_roundtrip [OF h l] b
  have "ParsePacket [0xAA, 0x55, 0, 0, 0, 0, 0, 0, 1, 0x44, 0x01, 0x44]
      = Inr (DefaultPacket\<lparr>Data := [0x44]\<rparr>)"
    by auto
  with h l b show ?thesis by (intro conjI)
qed

section \<open>The status responses\<close>

text \<open>
  Claim C4. The parsers of the register and deregister responses first decode the
  frame. The control code must be 0x10, otherwise the error wraps
  \<open>ErrUnexpectedControlCode\<close>; the function code must be 0x81 (register) or 0x82
  (deregister), otherwise the error wraps \<open>ErrUnexpectedFunctionCode\<close>. Then the
  payload must be exactly one byte: the ACK byte 0x06 is success (no error), the
  NACK byte 0x15 is the "got NOACK" error (the spec's DeviceRejected), and a payload
  of any other length or any other status byte is an error that wraps
  \<open>ErrInvalidBody\<close> (the spec's MalformedStatus).
\<close>

theorem status_response_parsers:
  "ParseRegisterInverterResponse body =
     (case ParsePacket body of
        Inl e \<Rightarrow> Some e
      | Inr p \<Rightarrow>
          if ControlCode p \<noteq> 0x10
          then Some (Wrapped ErrUnexpectedControlCode (ExpectedGot 0x10 (ControlCode p)))
          else if FunctionCode p \<noteq> 0x81
          then Some (Wrapped ErrUnexpectedFunctionCode (ExpectedGot 0x81 (FunctionCode p)))
          else if Data p = [0x06] then None
          else if Data p = [0x15] then Some GotNOACK
          else Some (Wrapped ErrInvalidBody
                       (case Data p of
                          [s] \<Rightarrow> ExpectedACKorNOACK s
                        | _ \<Rightarrow> ExpectedDataLength1 (int (length (Data p))))))
   \<and> ParseUnregisterInverterResponse body =
     (case ParsePacket body of
        Inl e \<Rightarrow> Some e
      | Inr p \<Rightarrow>
          if ControlCode p \<noteq> 0x10
          then Some (Wrapped ErrUnexpectedControlCode (ExpectedGot 0x10 (ControlCode p)))
          else if FunctionCode p \<noteq> 0x82
          then Some (Wrapped ErrUnexpectedFunctionCode (ExpectedGot 0x81 (FunctionCode p)))
          else if Data p = [0x06] then None
          else if Data p = [0x15] then Some GotNOACK
          else Some (Wrapped ErrInvalidBody
                       (case Data p of
                          [s] \<Rightarrow> ExpectedACKorNOACK s
                        | _ \<Rightarrow> ExpectedDataLength1 (int (length (Data p))))))"
proof (cases "ParsePacket body")
  case (Inl e)
  then show ?thesis
    by (simp add: ParseRegisterInverterResponse_def ParseUnregisterInverterResponse_def)
next
  case (Inr p)
  show ?thesis
  proof (cases "Data p")
    case Nil
    with Inr show ?thesis
      by (simp add: ParseRegisterInverterResponse_def ParseUnregisterInverterResponse_def
          ControlCodeRegister_def)
  next
    case (Cons s rest)
    show ?thesis
    proof (cases rest)
      case Nil
      with Cons Inr show ?thesis
        by (simp add: ParseRegisterInverterResponse_def ParseUnregisterInverterResponse_def
            ControlCodeRegister_def StatusACK_def StatusNOACK_def status_index)
    next
      case (Cons t rest')
      with \<open>Data p = s # rest\<close> Inr show ?thesis
        by (simp add: ParseRegisterInverterResponse_def ParseUnregisterInverterResponse_def
            ControlCodeRegister_def)
    qed
  qed
qed

section \<open>The normaliser\<close>

text \<open>
  Claim C5, at the fault mask 0x00000001 and at 0x80000000. The table documented
  with the \<open>ErrMessage\<close> field gives bit 0 the name TzProtectFault and bit 31 the name
  BIT31. \<open>NormalizeInfoResponse\<close> tests 2147483648 shifted right by the table
  index, so it answers BIT31 for the mask with only bit 0 set and TzProtectFault
  for the mask with only bit 31 set.
\<close>

theorem fault_names_reversed:
  "NormalizedNormalInfoResponse.ErrMessage
     (NormalizeInfoResponse (zeroNormalInfoResponse\<lparr>NormalInfoResponse.ErrMessage := 0x00000001\<rparr>))
     = [''BIT31'']
   \<and> NormalizedNormalInfoResponse.ErrMessage
     (NormalizeInfoResponse (zeroNormalInfoResponse\<lparr>NormalInfoResponse.ErrMessage := 0x80000000\<rparr>))
     = [''TzProtectFault'']"
  by (simp add: NormalizeInfoResponse_def Let_def errMessageChain_def appendIfSet_def)

text \<open>
  Claim C6, as stated, for the mode code 7: \<open>NormalizeInfoResponse\<close> gives the
  empty string, not an explicit representation of an unknown mode.
\<close>

theorem unknown_mode_is_empty_string:
  "NormalizedNormalInfoResponse.Mode
     (NormalizeInfoResponse (zeroNormalInfoResponse\<lparr>NormalInfoResponse.Mode := 7\<rparr>)) = []"
  by (simp add: NormalizeInfoResponse_def Let_def lookup_def modes_def)

text \<open>
  Claim C6, amended. \<open>NormalizeInfoResponse\<close> maps the mode codes 0 to 6 to Wait,
  Check, Normal, Fault, Permanent Fault, Update and Selftest, and every other code
  (7 to 65535) to the empty string.
\<close>

theorem mode_lookup:
  "NormalizedNormalInfoResponse.Mode (NormalizeInfoResponse i) =
     (if NormalInfoResponse.Mode i = 0 then ''Wait''
      else if NormalInfoResponse.Mode i = 1 then ''Check''
      else if NormalInfoResponse.Mode i = 2 then ''Normal''
      else if NormalInfoResponse.Mode i = 3 then ''Fault''
      else if NormalInfoResponse.Mode i = 4 then ''Permanent Fault''
      else if NormalInfoResponse.Mode i = 5 then ''Update''
      else if NormalInfoResponse.Mode i = 6 then ''Selftest''
      else [])"
  by (simp add: NormalizeInfoResponse_def Let_def lookup_def modes_def)

text \<open>
  Claim C7. \<open>NormalizeInfoResponse\<close> of a record with mode code 2 has the mode name
  Normal, and of a record with fault mask 0b10001000_01000100_00100010_00010001 has
  exactly 8 fault names, among them TzProtectFault, PLLLostFault and BIT31.
\<close>

theorem normalize_test_vector:
  "NormalizedNormalInfoResponse.Mode
     (NormalizeInfoResponse (i\<lparr>NormalInfoResponse.Mode := 2\<rparr>)) = ''Normal''
   \<and> (let faults =
          NormalizedNormalInfoResponse.ErrMessage
            (NormalizeInfoResponse
               (i\<lparr>NormalInfoResponse.ErrMessage := 0b10001000010001000010001000010001\<rparr>))
      in length faults = 8
         \<and> ''TzProtectFault'' \<in> set faults
         \<and> ''PLLLostFault'' \<in> set faults
         \<and> ''BIT31'' \<in> set faults
         \<and> faults = [''TzProtectFault'', ''PLLLostFault'', ''ResidualCurrentFault'',
                      ''TemperatureOverFault'', ''BIT18'', ''SampleConsistenceFault'',
                      ''BIT27'', ''BIT31''])"
proof -
  have mode: "NormalizedNormalInfoResponse.Mode
      (NormalizeInfoResponse (i\<lparr>NormalInfoResponse.Mode := 2\<rparr>)) = ''Normal''"
    by (simp add: NormalizeInfoResponse_def Let_def lookup_def modes_def)
  have faults: "NormalizedNormalInfoResponse.ErrMessage
      (NormalizeInfoResponse
         (i\<lparr>NormalInfoResponse.ErrMessage := 0b10001000010001000010001000010001\<rparr>))
      = [''TzProtectFault'', ''PLLLostFault'', ''ResidualCurrentFault'',
         ''TemperatureOverFault'', ''BIT18'', ''SampleConsistenceFault'',
         ''BIT27'', ''BIT31'']"
    by (simp add: NormalizeInfoResponse_def Let_def errMessageChain_def appendIfSet_def)
  show ?thesis
    unfolding Let_def faults mode by simp
qed

section \<open>The client's exchanges\<close>

text \<open>
  Claim C8. For every connection, client, inverter and address, the error that
  \<open>RegisterInverter\<close> returns is fixed by the steps of the exchange, in this order: a
  failed flush is that error; a serial too long to encode (more than 254 bytes, with
  the address more than 255) is \<open>ErrMaxDataSizeExceeded\<close>; otherwise the request
  frame, with function code 0x01 and payload serial plus address, is written, and a
  failed write is that error, a short write \<open>ErrIncompleteWrite\<close>; a failed read is
  that error; otherwise the error is what \<open>ParseRegisterInverterResponse\<close> says of
  the bytes read, which is no error exactly for a frame with control code 0x10,
  function code 0x81 and the single status byte 0x06. The inverter has the requested
  address exactly when no error is returned, and is otherwise as it was, same address
  and same serial. \<open>UnregisterInverter\<close> is the same with function codes 0x02 and
  0x82, the inverter's own address in the request, and address 0 on success.
\<close>

theorem address_lifecycle:
  "(let body = [0xAA, 0x55, 0, 0, 0, 0, 0x10, 0x01,
                word_of_nat (length (Inverter.Serial ivt) + 1)]
               @ Inverter.Serial ivt @ [address];
        cs = (word_of_nat (sum_list (map unat body)) :: uint16);
        req = body @ [ucast (drop_bit 8 cs), ucast cs]
    in case RegisterInverter conn c (Some ivt) address of
         (err, inverter', c') \<Rightarrow>
           err =
             (case Flush conn (Conn c) of
                (Some e, s1) \<Rightarrow> Some (ConnError e)
              | (None, s1) \<Rightarrow>
                  if 254 < length (Inverter.Serial ivt)
                  then Some (Sentinel ErrMaxDataSizeExceeded)
                  else
                    (case Write conn s1 req of
                       ((n, Some e), s2) \<Rightarrow> Some (ConnError e)
                     | ((n, None), s2) \<Rightarrow>
                         if n \<noteq> int (length req) then Some (Sentinel ErrIncompleteWrite)
                         else
                           (case ReadAll conn s2 of
                              ((resp, Some e), s3) \<Rightarrow> Some (ConnError e)
                            | ((resp, None), s3) \<Rightarrow> ParseRegisterInverterResponse resp)))
           \<and> inverter' = Some (if err = None then ivt\<lparr>Address := address\<rparr> else ivt))
   \<and> (let body = [0xAA, 0x55, 0, 0, 0, 0, 0x10, 0x02,
                  word_of_nat (length (Inverter.Serial ivt) + 1)]
                 @ Inverter.Serial ivt @ [Address ivt];
          cs = (word_of_nat (sum_list (map unat body)) :: uint16);
          req = body @ [ucast (drop_bit 8 cs), ucast cs]
      in case UnregisterInverter conn c (Some ivt) of
           (err, inverter', c') \<Rightarrow>
             err =
               (case Flush conn (Conn c) of
                  (Some e, s1) \<Rightarrow> Some (ConnError e)
                | (None, s1) \<Rightarrow>
                    if 254 < length (Inverter.Serial ivt)
                    then Some (Sentinel ErrMaxDataSizeExceeded)
                    else
                      (case Write conn s1 req of
                         ((n, Some e), s2) \<Rightarrow> Some (ConnError e)
                       | ((n, None), s2) \<Rightarrow>
                           if n \<noteq> int (length req) then Some (Sentinel ErrIncompleteWrite)
                           else
                             (case ReadAll conn s2 of
                                ((resp, Some e), s3) \<Rightarrow> Some (ConnError e)
                              | ((resp, None), s3) \<Rightarrow>
                                  ParseUnregisterInverterResponse resp)))
             \<and> inverter' = Some (if err = None then ivt\<lparr>Address := 0\<rparr> else ivt))
   \<and> (ParseRegisterInverterResponse resp = None \<longleftrightarrow>
        (\<exists>p. ParsePacket resp = Inr p \<and> ControlCode p = 0x10 \<and> FunctionCode p = 0x81
             \<and> Data p = [0x06]))
   \<and> (ParseUnregisterInverterResponse resp = None \<longleftrightarrow>
        (\<exists>p. ParsePacket resp = Inr p \<and> ControlCode p = 0x10 \<and> FunctionCode p = 0x82
             \<and> Data p = [0x06]))"
proof (intro conjI)
  obtain err i' c' where eq: "RegisterInverter conn c (Some ivt) address = (err, i', c')"
    by (cases "RegisterInverter conn c (Some ivt) address") auto
  from RegisterInverter_result [OF eq]
  show "let body = [0xAA, 0x55, 0, 0, 0, 0, 0x10, 0x01,
                word_of_nat (length (Inverter.Serial ivt) + 1)]
               @ Inverter.Serial ivt @ [address];
        cs = (word_of_nat (sum_list (map unat body)) :: uint16);
        req = body @ [ucast (drop_bit 8 cs), ucast cs]
    in case RegisterInverter conn c (Some ivt) address of
         (err, inverter', c') \<Rightarrow>
           err =
             (case Flush conn (Conn c) of
                (Some e, s1) \<Rightarrow> Some (ConnError e)
              | (None, s1) \<Rightarrow>
                  if 254 < length (Inverter.Serial ivt)
                  then Some (Sentinel ErrMaxDataSizeExceeded)
                  else
                    (case Write conn s1 req of
                       ((n, Some e), s2) \<Rightarrow> Some (ConnError e)
                     | ((n, None), s2) \<Rightarrow>
                         if n \<noteq> int (length req) then Some (Sentinel ErrIncompleteWrite)
                         else
                           (case ReadAll conn s2 of
                              ((resp, Some e), s3) \<Rightarrow> Some (ConnError e)
                            | ((resp, None), s3) \<Rightarrow> ParseRegisterInverterResponse resp)))
           \<and> inverter' = Some (if err = None then ivt\<lparr>Address := address\<rparr> else ivt)"
    unfolding eq Bytes_RegisterInverterRequest Let_def
    by (cases "254 < length (Inverter.Serial ivt)") (simp_all split: prod.splits option.splits)
  obtain err i' c' where eq: "UnregisterInverter conn c (Some ivt) = (err, i', c')"
    by (cases "UnregisterInverter conn c (Some ivt)") auto
  from UnregisterInverter_result [OF eq]
  show "let body = [0xAA, 0x55, 0, 0, 0, 0, 0x10, 0x02,
                  word_of_nat (length (Inverter.Serial ivt) + 1)]
                 @ Inverter.Serial ivt @ [Address ivt];
          cs = (word_of_nat (sum_list (map unat body)) :: uint16);
          req = body @ [ucast (drop_bit 8 cs), ucast cs]
      in case UnregisterInverter conn c (Some ivt) of
           (err, inverter', c') \<Rightarrow>
             err =
               (case Flush conn (Conn c) of
                  (Some e, s1) \<Rightarrow> Some (ConnError e)
                | (None, s1) \<Rightarrow>
                    if 254 < length (Inverter.Serial ivt)
                    then Some (Sentinel ErrMaxDataSizeExceeded)
                    else
                      (case Write conn s1 req of
                         ((n, Some e), s2) \<Rightarrow> Some (ConnError e)
                       | ((n, None), s2) \<Rightarrow>
                           if n \<noteq> int (length req) then Some (Sentinel ErrIncompleteWrite)
                           else
                             (case ReadAll conn s2 of
                                ((resp, Some e), s3) \<Rightarrow> Some (ConnError e)
                              | ((resp, None), s3) \<Rightarrow>
                                  ParseUnregisterInverterResponse resp)))
             \<and> inverter' = Some (if err = None then ivt\<lparr>Address := 0\<rparr> else ivt)"
    unfolding eq Bytes_UnregisterInverterRequest Let_def
    by (cases "254 < length (Inverter.Serial ivt)") (simp_all split: prod.splits option.splits)
qed (rule ParseRegisterInverterResponse_ack ParseUnregisterInverterResponse_ack)+

text \<open>
  Exchanges on the scripted connection: a register exchange answered by ACK, one
  answered by NACK, a deregister exchange answered by ACK, and two register
  exchanges that the device would acknowledge but whose flush fails or whose write
  is short.
\<close>

theorem address_lifecycle_witness:
  "RegisterInverter scriptedConnection
      (exampleClient [0xAA, 0x55, 0, 0, 0, 0, 0x10, 0x81, 1, 0x06, 0x01, 0x97])
      (Some \<lparr>Serial = [1], Address = 0\<rparr>) 5
     = (None, Some \<lparr>Serial = [1], Address = 5\<rparr>,
        \<lparr>Conn = [],
         LastResponse = [0xAA, 0x55, 0, 0, 0, 0, 0x10, 0x81, 1, 0x06, 0x01, 0x97],
         WaitTime = 250000000\<rparr>)
   \<and> RegisterInverter scriptedConnection
      (exampleClient [0xAA, 0x55, 0, 0, 0, 0, 0x10, 0x81, 1, 0x15, 0x01, 0xA6])
      (Some \<lparr>Serial = [1], Address = 0\<rparr>) 5
     = (Some GotNOACK, Some \<lparr>Serial = [1], Address = 0\<rparr>,
        \<lparr>Conn = [],
         LastResponse = [0xAA, 0x55, 0, 0, 0, 0, 0x10, 0x81, 1, 0x15, 0x01, 0xA6],
         WaitTime = 250000000\<rparr>)
   \<and> UnregisterInverter scriptedConnection
      (exampleClient [0xAA, 0x55, 0, 0, 0, 0, 0x10, 0x82, 1, 0x06, 0x01, 0x98])
      (Some \<lparr>Serial = [1], Address = 5\<rparr>)
     = (None, Some \<lparr>Serial = [1], Address = 0\<rparr>,
        \<lparr>Conn = [],
         LastResponse = [0xAA, 0x55, 0, 0, 0, 0, 0x10, 0x82, 1, 0x06, 0x01, 0x98],
         WaitTime = 250000000\<rparr>)
   \<and> fst (RegisterInverter (scriptedConnection\<lparr>Flush := (\<lambda>s. (Some ''flush'', s))\<rparr>)
      (exampleClient [0xAA, 0x55, 0, 0, 0, 0, 0x10, 0x81, 1, 0x06, 0x01, 0x97])
      (Some \<lparr>Serial = [1], Address = 0\<rparr>) 5) = Some (ConnError ''flush'')
   \<and> fst (snd (RegisterInverter
      (scriptedConnection\<lparr>Flush := (\<lambda>s. (Some ''flush'', s))\<rparr>)
      (exampleClient [0xAA, 0x55, 0, 0, 0, 0, 0x10, 0x81, 1, 0x06, 0x01, 0x97])
      (Some \<lparr>Serial = [1], Address = 0\<rparr>) 5)) = Some \<lparr>Serial = [1], Address = 0\<rparr>
   \<and> fst (RegisterInverter (scriptedConnection\<lparr>Write := (\<lambda>s bs. ((12, None), s))\<rparr>)
      (exampleClient [0xAA, 0x55, 0, 0, 0, 0, 0x10, 0x81, 1, 0x06, 0x01, 0x97])
      (Some \<lparr>Serial = [1], Address = 0\<rparr>) 5) = Some (Sentinel ErrIncompleteWrite)
   \<and> fst (snd (RegisterInverter
      (scriptedConnection\<lparr>Write := (\<lambda>s bs. ((12, None), s))\<rparr>)
      (exampleClient [0xAA, 0x55, 0, 0, 0, 0, 0x10, 0x81, 1, 0x06, 0x01, 0x97])
      (Some \<lparr>Serial = [1], Address = 0\<rparr>) 5)) = Some \<lparr>Serial = [1], Address = 0\<rparr>"
proof -
  let ?ack1 = "[0xAA, 0x55, 0, 0, 0, 0, 0x10, 0x81, 1, 0x06, 0x01, 0x97] :: byte list"
  let ?nack1 = "[0xAA, 0x55, 0, 0, 0, 0, 0x10, 0x81, 1, 0x15, 0x01, 0xA6] :: byte list"
  let ?ack2 = "[0xAA, 0x55, 0, 0, 0, 0, 0x10, 0x82, 1, 0x06, 0x01, 0x98] :: byte list"
  let ?noflush = "scriptedConnection\<lparr>Flush := (\<lambda>s. (Some ''flush'', s))\<rparr>"
  let ?short = "scriptedConnection\<lparr>Write := (\<lambda>s bs. ((12, None), s))\<rparr>"
  let ?r1 = "RegisterInverter scriptedConnection (exampleClient ?ack1)
               (Some \<lparr>Serial = [1], Address = 0\<rparr>) 5"
  let ?r2 = "RegisterInverter scriptedConnection (exampleClient ?nack1)
               (Some \<lparr>Serial = [1], Address = 0\<rparr>) 5"
  let ?r3 = "UnregisterInverter scriptedConnection (exampleClient ?ack2)
               (Some \<lparr>Serial = [1], Address = 5\<rparr>)"
  let ?r4 = "RegisterInverter ?noflush (exampleClient ?ack1)
               (Some \<lparr>Serial = [1], Address = 0\<rparr>) 5"
  let ?r5 = "RegisterInverter ?short (exampleClient ?ack1)
               (Some \<lparr>Serial = [1], Address = 0\<rparr>) 5"
  have r1: "fst ?r1 = None"
    and c1: "snd (snd ?r1) = \<lparr>Conn = [], LastResponse = ?ack1, WaitTime = 250000000\<rparr>"
    by code_simp+
  have r2: "fst ?r2 = Some GotNOACK"
    and c2: "snd (snd ?r2) = \<lparr>Conn = [], LastResponse = ?nack1, WaitTime = 250000000\<rparr>"
    by code_simp+
  have r3: "fst ?r3 = None"
    and c3: "snd (snd ?r3) = \<lparr>Conn = [], LastResponse = ?ack2, WaitTime = 250000000\<rparr>"
    by code_simp+
  have r4: "fst ?r4 = Some (ConnError ''flush'')" by code_simp
  have r5: "fst ?r5 = Some (Sentinel ErrIncompleteWrite)" by code_simp
  from address_lifecycle [where conn = scriptedConnection and c = "exampleClient ?ack1"
      and ivt = "\<lparr>Serial = [1], Address = 0\<rparr>" and address = 5,
      THEN conjunct1, unfolded Let_def case_prod_beta, THEN conjunct2] r1
  have i1: "fst (snd ?r1) = Some \<lparr>Serial = [1], Address = 5\<rparr>" by simp
  from address_lifecycle [where conn = scriptedConnection and c = "exampleClient ?nack1"
      and ivt = "\<lparr>Serial = [1], Address = 0\<rparr>" and address = 5,
      THEN conjunct1, unfolded Let_def case_prod_beta, THEN conjunct2] r2
  have i2: "fst (snd ?r2) = Some \<lparr>Serial = [1], Address = 0\<rparr>" by simp
  from address_lifecycle [where conn = scriptedConnection and c = "exampleClient ?ack2"
      and ivt = "\<lparr>Serial = [1], Address = 5\<rparr>",
      THEN conjunct2, THEN conjunct1, unfolded Let_def case_prod_beta, THEN conjunct2] r3
  have i3: "fst (snd ?r3) = Some \<lparr>Serial = [1], Address = 0\<rparr>" by simp
  from address_lifecycle [where conn = ?noflush and c = "exampleClient ?ack1"
      and ivt = "\<lparr>Serial = [1], Address = 0\<rparr>" and address = 5,
      THEN conjunct1, unfolded Let_def case_prod_beta, THEN conjunct2] r4
  have i4: "fst (snd ?r4) = Some \<lparr>Serial = [1], Address = 0\<rparr>" by simp
  from address_lifecycle [where conn = ?short and c = "exampleClient ?ack1"
      and ivt = "\<lparr>Serial = [1], Address = 0\<rparr>" and address = 5,
      THEN conjunct1, unfolded Let_def case_prod_beta, THEN conjunct2] r5
  have i5: "fst (snd ?r5) = Some \<lparr>Serial = [1], Address = 0\<rparr>" by simp
  from r1 i1 c1 have "?r1 = (None, Some \<lparr>Serial = [1], Address = 5\<rparr>,
      \<lparr>Conn = [], LastResponse = ?ack1, WaitTime = 250000000\<rparr>)"
    by (simp add: prod_eq_iff)
  moreover from r2 i2 c2 have "?r2 = (Some GotNOACK, Some \<lparr>Serial = [1], Address = 0\<rparr>,
      \<lparr>Conn = [], LastResponse = ?nack1, WaitTime = 250000000\<rparr>)"
    by (simp add: prod_eq_iff)
  moreover from r3 i3 c3 have "?r3 = (None, Some \<lparr>Serial = [1], Address = 0\<rparr>,
      \<lparr>Conn = [], LastResponse = ?ack2, WaitTime = 250000000\<rparr>)"
    by (simp add: prod_eq_iff)
  ultimately show ?thesis using r4 i4 r5 i5 by (intro conjI)
qed

text \<open>
  Claim C9. Take an exchange whose flush succeeded, whose request was sent in full,
  and whose read, after the wait, returned zero bytes. \<open>FindUnregisteredInverter\<close>
  then returns \<open>ErrNoInverter\<close> if the read reported no error; it does not decode
  the empty input, which would give the framing error for a short packet. Each
  addressed operation (register, deregister, telemetry query, device-info query)
  returns an error: that framing error, or the error of the read.
\<close>

theorem zero_byte_read:
  assumes flush: "Flush conn (Conn c) = (None, s1)"
    and read: "Read conn c2 = (([], rerr), c3)"
  shows
   "(Bytes UnregisteredInverterRequest = Inr req0
       \<and> Send conn (c\<lparr>Conn := s1\<rparr>) req0 = (None, c2) \<and> rerr = None
     \<longrightarrow> FindUnregisteredInverter conn c = (Inl (Sentinel ErrNoInverter), c3)
         \<and> ParseUnregisteredInverterResponse []
             = Inl (Wrapped ErrInvalidBody (MinimumPacketSize 0)))
    \<and> (Bytes (RegisterInverterRequest (Inverter.Serial ivt) address) = Inr req1
          \<and> Send conn (c\<lparr>Conn := s1\<rparr>) req1 = (None, c2)
        \<longrightarrow> RegisterInverter conn c (Some ivt) address
              = (Some (case rerr of
                         None \<Rightarrow> Wrapped ErrInvalidBody (MinimumPacketSize 0)
                       | Some e \<Rightarrow> e), Some ivt, c3))
    \<and> (Bytes (UnregisterInverterRequest (Inverter.Serial ivt) (Address ivt)) = Inr req2
          \<and> Send conn (c\<lparr>Conn := s1\<rparr>) req2 = (None, c2)
        \<longrightarrow> UnregisterInverter conn c (Some ivt)
              = (Some (case rerr of
                         None \<Rightarrow> Wrapped ErrInvalidBody (MinimumPacketSize 0)
                       | Some e \<Rightarrow> e), Some ivt, c3))
    \<and> (Bytes (NormalInfoRequest (Address ivt)) = Inr req3
          \<and> Send conn (c\<lparr>Conn := s1\<rparr>) req3 = (None, c2)
        \<longrightarrow> GetInfo conn c (Some ivt)
              = (Inl (case rerr of
                        None \<Rightarrow> Wrapped ErrInvalidBody (MinimumPacketSize 0)
                      | Some e \<Rightarrow> e), c3))
    \<and> (Bytes (InverterInfoRequest (Address ivt)) = Inr req4
          \<and> Send conn (c\<lparr>Conn := s1\<rparr>) req4 = (None, c2)
        \<longrightarrow> GetInverterInfo conn c (Some ivt)
              = (Inl (case rerr of
                        None \<Rightarrow> Wrapped ErrInvalidBody (MinimumPacketSize 0)
                      | Some e \<Rightarrow> e), c3))"
proof (intro conjI impI)
  assume "Bytes UnregisteredInverterRequest = Inr req0
       \<and> Send conn (c\<lparr>Conn := s1\<rparr>) req0 = (None, c2) \<and> rerr = None"
  with flush read show "FindUnregisteredInverter conn c = (Inl (Sentinel ErrNoInverter), c3)"
    by (simp add: FindUnregisteredInverter_def Let_def)
next
  show "ParseUnregisteredInverterResponse []
      = Inl (Wrapped ErrInvalidBody (MinimumPacketSize 0))"
    by (simp add: ParseUnregisteredInverterResponse_def bind_def ParsePacket_Nil)
next
  assume "Bytes (RegisterInverterRequest (Inverter.Serial ivt) address) = Inr req1
          \<and> Send conn (c\<lparr>Conn := s1\<rparr>) req1 = (None, c2)"
  with flush read show "RegisterInverter conn c (Some ivt) address
      = (Some (case rerr of
                 None \<Rightarrow> Wrapped ErrInvalidBody (MinimumPacketSize 0)
               | Some e \<Rightarrow> e), Some ivt, c3)"
    by (cases rerr)
       (simp_all add: RegisterInverter_def Let_def ParseRegisterInverterResponse_def
          ParsePacket_Nil)
next
  assume "Bytes (UnregisterInverterRequest (Inverter.Serial ivt) (Address ivt)) = Inr req2
          \<and> Send conn (c\<lparr>Conn := s1\<rparr>) req2 = (None, c2)"
  with flush read show "UnregisterInverter conn c (Some ivt)
      = (Some (case rerr of
                 None \<Rightarrow> Wrapped ErrInvalidBody (MinimumPacketSize 0)
               | Some e \<Rightarrow> e), Some ivt, c3)"
    by (cases rerr)
       (simp_all add: UnregisterInverter_def Let_def ParseUnregisterInverterResponse_def
          ParsePacket_Nil)
next
  assume "Bytes (NormalInfoRequest (Address ivt)) = Inr req3
          \<and> Send conn (c\<lparr>Conn := s1\<rparr>) req3 = (None, c2)"
  with flush read show "GetInfo conn c (Some ivt)
      = (Inl (case rerr of
                None \<Rightarrow> Wrapped ErrInvalidBody (MinimumPacketSize 0)
              | Some e \<Rightarrow> e), c3)"
    by (cases rerr)
       (simp_all add: GetInfo_def Let_def ParseNormalInfoResponse_def bind_def
          ParsePacket_Nil)
next
  assume "Bytes (InverterInfoRequest (Address ivt)) = Inr req4
          \<and> Send conn (c\<lparr>Conn := s1\<rparr>) req4 = (None, c2)"
  with flush read show "GetInverterInfo conn c (Some ivt)
      = (Inl (case rerr of
                None \<Rightarrow> Wrapped ErrInvalidBody (MinimumPacketSize 0)
              | Some e \<Rightarrow> e), c3)"
    by (cases rerr)
       (simp_all add: GetInverterInfo_def Let_def ParseInverterInfoResponse_def bind_def
          ParsePacket_Nil)
qed

text \<open>All five operations on the scripted connection with nothing to answer.\<close>

theorem zero_byte_read_witness:
  "Flush scriptedConnection (Conn (exampleClient [])) = (None, [])
   \<and> Read scriptedConnection (exampleClient []) = (([], None), exampleClient [])
   \<and> Bytes UnregisteredInverterRequest
       = Inr [0xAA, 0x55, 0, 0, 0, 0, 0x10, 0, 0, 0x01, 0x0F]
   \<and> Bytes (RegisterInverterRequest (Inverter.Serial \<lparr>Serial = [1], Address = 1\<rparr>) 5)
       = Inr [0xAA, 0x55, 0, 0, 0, 0, 0x10, 0x01, 2, 1, 5, 0x01, 0x18]
   \<and> Bytes (UnregisterInverterRequest (Inverter.Serial \<lparr>Serial = [1], Address = 1\<rparr>)
               (Address \<lparr>Serial = [1], Address = 1\<rparr>))
       = Inr [0xAA, 0x55, 0, 0, 0, 0, 0x10, 0x02, 2, 1, 1, 0x01, 0x15]
   \<and> Bytes (NormalInfoRequest (Address \<lparr>Serial = [1], Address = 1\<rparr>))
       = Inr [0xAA, 0x55, 0, 0, 0, 1, 0x11, 0x02, 0, 0x01, 0x13]
   \<and> Bytes (InverterInfoRequest (Address \<lparr>Serial = [1], Address = 1\<rparr>))
       = Inr [0xAA, 0x55, 0, 0, 0, 1, 0x11, 0x03, 0, 0x01, 0x14]
   \<and> (\<forall>req. Send scriptedConnection ((exampleClient [])\<lparr>Conn := []\<rparr>) req
               = (None, exampleClient []))
   \<and> FindUnregisteredInverter scriptedConnection (exampleClient [])
       = (Inl (Sentinel ErrNoInverter), exampleClient [])
   \<and> RegisterInverter scriptedConnection (exampleClient [])
         (Some \<lparr>Serial = [1], Address = 1\<rparr>) 5
       = (Some (Wrapped ErrInvalidBody (MinimumPacketSize 0)),
          Some \<lparr>Serial = [1], Address = 1\<rparr>, exampleClient [])
   \<and> UnregisterInverter scriptedConnection (exampleClient [])
         (Some \<lparr>Serial = [1], Address = 1\<rparr>)
       = (Some (Wrapped ErrInvalidBody (MinimumPacketSize 0)),
          Some \<lparr>Serial = [1], Address = 1\<rparr>, exampleClient [])
   \<and> GetInfo scriptedConnection (exampleClient []) (Some \<lparr>Serial = [1], Address = 1\<rparr>)
       = (Inl (Wrapped ErrInvalidBody (MinimumPacketSize 0)), exampleClient [])
   \<and> GetInverterInfo scriptedConnection (exampleClient [])
         (Some \<lparr>Serial = [1], Address = 1\<rparr>)
       = (Inl (Wrapped ErrInvalidBody (MinimumPacketSize 0)), exampleClient [])"
proof -
  let ?c = "exampleClient []"
  let ?ivt = "\<lparr>Serial = [1], Address = 1\<rparr>"
  let ?req0 = "[0xAA, 0x55, 0, 0, 0, 0, 0x10, 0, 0, 0x01, 0x0F] :: byte list"
  let ?req1 = "[0xAA, 0x55, 0, 0, 0, 0, 0x10, 0x01, 2, 1, 5, 0x01, 0x18] :: byte list"
  let ?req2 = "[0xAA, 0x55, 0, 0, 0, 0, 0x10, 0x02, 2, 1, 1, 0x01, 0x15] :: byte list"
  let ?req3 = "[0xAA, 0x55, 0, 0, 0, 1, 0x11, 0x02, 0, 0x01, 0x13] :: byte list"
  let ?req4 = "[0xAA, 0x55, 0, 0, 0, 1, 0x11, 0x03, 0, 0x01, 0x14] :: byte list"
  have f: "Flush scriptedConnection (Conn ?c) = (None, [])"
    by (simp add: scriptedConnection_def exampleClient_def)
  have r: "Read scriptedConnection ?c = (([], None), ?c)"
    by (simp add: Read_def scriptedConnection_def exampleClient_def)
  have s: "\<forall>req. Send scriptedConnection (?c\<lparr>Conn := []\<rparr>) req = (None, ?c)"
    by (simp add: Send_def scriptedConnection_def exampleClient_def)
  have b0: "Bytes UnregisteredInverterRequest = Inr ?req0" by code_simp
  have b1: "Bytes (RegisterInverterRequest (Inverter.Serial ?ivt) 5) = Inr ?req1"
    by code_simp
  have b2: "Bytes (UnregisterInverterRequest (Inverter.Serial ?ivt) (Address ?ivt)) = Inr ?req2"
    by code_simp
  have b3: "Bytes (NormalInfoRequest (Address ?ivt)) = Inr ?req3" by code_simp
  have b4: "Bytes (InverterInfoRequest (Address ?ivt)) = Inr ?req4" by code_simp
  note z = zero_byte_read [OF f r, where ?req0.0 = ?req0 and ivt = ?ivt and address = 5
      and ?req1.0 = ?req1 and ?req2.0 = ?req2 and ?req3.0 = ?req3 and ?req4.0 = ?req4]
  have "FindUnregisteredInverter scriptedConnection ?c = (Inl (Sentinel ErrNoInverter), ?c)"
    using z b0 s by simp
  moreover have "RegisterInverter scriptedConnection ?c (Some ?ivt) 5
       = (Some (Wrapped ErrInvalidBody (MinimumPacketSize 0)), Some ?ivt, ?c)"
    using z b1 s by simp
  moreover have "UnregisterInverter scriptedConnection ?c (Some ?ivt)
       = (Some (Wrapped ErrInvalidBody (MinimumPacketSize 0)), Some ?ivt, ?c)"
    using z b2 s by simp
  moreover have "GetInfo scriptedConnection ?c (Some ?ivt)
       = (Inl (Wrapped ErrInvalidBody (MinimumPacketSize 0)), ?c)"
    using z b3 s by simp
  moreover have "GetInverterInfo scriptedConnection ?c (Some ?ivt)
       = (Inl (Wrapped ErrInvalidBody (MinimumPacketSize 0)), ?c)"
    using z b4 s by simp
  ultimately show ?thesis using f r s b0 b1 b2 b3 b4 by (intro conjI)
qed

section \<open>Bounds of the parsers\<close>

text \<open>
  Claim C10. For every input of any length, \<open>ParsePacket\<close>,
  \<open>NormalInfoResponseFromData\<close> and \<open>InverterInfoResponseFromData\<close> never panic:
  every index, slice and array conversion they make, up to offset 50 in the
  telemetry decoder, up to offset 67 in the device-info decoder, and the trailing
  checksum slice of \<open>ParsePacket\<close>, is reached only with an input long enough for it.
  So each returns a value or an error of its own; the telemetry decoder returns a
  value exactly on 50 bytes, the device-info decoder exactly on 67 bytes or more.
\<close>

theorem parsers_never_panic:
  "ParsePacket res \<noteq> Inl Panic
   \<and> NormalInfoResponseFromData data \<noteq> Inl Panic
   \<and> InverterInfoResponseFromData data \<noteq> Inl Panic
   \<and> ((\<exists>r. NormalInfoResponseFromData data = Inr r) \<longleftrightarrow> length data = 50)
   \<and> ((\<exists>r. InverterInfoResponseFromData data = Inr r) \<longleftrightarrow> 67 \<le> length data)"
proof (intro conjI)
  show "ParsePacket res \<noteq> Inl Panic"
  proof (cases "length res < 11")
    case True
    then show ?thesis by (simp add: ParsePacket_short)
  next
    case long: False
    show ?thesis
    proof (cases "int (length res) = uint (res ! 8) + 11")
      case True
      from long have "11 \<le> length res" by simp
      from ParsePacket_framed [OF this True] show ?thesis by (simp split: if_splits)
    next
      case False
      with long show ?thesis by (simp add: ParsePacket_length)
    qed
  qed
  show n: "(\<exists>r. NormalInfoResponseFromData data = Inr r) \<longleftrightarrow> length data = 50"
  proof
    assume "\<exists>r. NormalInfoResponseFromData data = Inr r"
    then show "length data = 50"
      by (auto simp: NormalInfoResponseFromData_def split: if_splits)
  qed (rule NormalInfoResponseFromData_50)
  show i: "(\<exists>r. InverterInfoResponseFromData data = Inr r) \<longleftrightarrow> 67 \<le> length data"
  proof
    assume "\<exists>r. InverterInfoResponseFromData data = Inr r"
    then show "67 \<le> length data"
      by (auto simp: InverterInfoResponseFromData_def split: if_splits)
  qed (rule InverterInfoResponseFromData_67)
  show "NormalInfoResponseFromData data \<noteq> Inl Panic"
  proof (cases "length data = 50")
    case True
    with n show ?thesis by auto
  next
    case False
    then show ?thesis by (simp add: NormalInfoResponseFromData_def)
  qed
  show "InverterInfoResponseFromData data \<noteq> Inl Panic"
  proof (cases "67 \<le> length data")
    case True
    with i show ?thesis by auto
  next
    case False
    then show ?thesis by (simp add: InverterInfoResponseFromData_def)
  qed
qed

end
